theory Spec2Isabelle
  imports Complex_Main "HOL-Library.Word"
begin

section \<open>JavaScript numbers\<close>

text \<open>
  A JavaScript number is modelled as an exact real, or one of the special values
  \<open>Infinity\<close>, \<open>-Infinity\<close> and \<open>NaN\<close>. The special values arise exactly where the
  language produces them from finite arguments (division by zero, \<open>Math.acos\<close> outside
  \<open>[-1, 1]\<close>, \<open>Math.sqrt\<close> of a negative number, ...) and they propagate as in IEEE 754.
  Rounding to 53 (or, inside a \<open>Float32Array\<close>, 24) bits, overflow of very large values
  and the sign of zero are outside the model: a sum or product of finite numbers is
  finite here. The one product whose rounding decides an array index, the lower bound
  of the treble range, is computed in binary64 instead (\<open>lowerBound_of\<close>).
\<close>

datatype jsnum = Fin real | Inf bool | NaN

text \<open>\<open>Inf True\<close> is \<open>Infinity\<close>, \<open>Inf False\<close> is \<open>-Infinity\<close>.\<close>

fun is_finite :: "jsnum \<Rightarrow> bool" where
  "is_finite (Fin a) = True"
| "is_finite (Inf s) = False"
| "is_finite NaN = False"

fun js_add :: "jsnum \<Rightarrow> jsnum \<Rightarrow> jsnum" where
  "js_add (Fin a) (Fin b) = Fin (a + b)"
| "js_add (Fin a) (Inf s) = Inf s"
| "js_add (Inf s) (Fin b) = Inf s"
| "js_add (Inf s) (Inf t) = (if s = t then Inf s else NaN)"
| "js_add NaN b = NaN"
| "js_add a NaN = NaN"

fun js_neg :: "jsnum \<Rightarrow> jsnum" where
  "js_neg (Fin a) = Fin (- a)"
| "js_neg (Inf s) = Inf (\<not> s)"
| "js_neg NaN = NaN"

fun js_mul :: "jsnum \<Rightarrow> jsnum \<Rightarrow> jsnum" where
  "js_mul (Fin a) (Fin b) = Fin (a * b)"
| "js_mul (Fin a) (Inf s) = (if a = 0 then NaN else Inf (s = (0 < a)))"
| "js_mul (Inf s) (Fin b) = (if b = 0 then NaN else Inf (s = (0 < b)))"
| "js_mul (Inf s) (Inf t) = Inf (s = t)"
| "js_mul NaN b = NaN"
| "js_mul a NaN = NaN"

fun js_div :: "jsnum \<Rightarrow> jsnum \<Rightarrow> jsnum" where
  "js_div (Fin a) (Fin b) =
     (if b = 0 then (if a = 0 then NaN else Inf (0 < a)) else Fin (a / b))"
| "js_div (Fin a) (Inf s) = Fin 0"
| "js_div (Inf s) (Fin b) = Inf (s = (0 \<le> b))"
| "js_div (Inf s) (Inf t) = NaN"
| "js_div NaN b = NaN"
| "js_div a NaN = NaN"

fun js_less :: "jsnum \<Rightarrow> jsnum \<Rightarrow> bool" where
  "js_less (Fin a) (Fin b) = (a < b)"
| "js_less (Fin a) (Inf s) = s"
| "js_less (Inf s) (Fin b) = (\<not> s)"
| "js_less (Inf s) (Inf t) = (\<not> s \<and> t)"
| "js_less NaN b = False"
| "js_less a NaN = False"

fun js_less_eq :: "jsnum \<Rightarrow> jsnum \<Rightarrow> bool" where
  "js_less_eq (Fin a) (Fin b) = (a \<le> b)"
| "js_less_eq (Fin a) (Inf s) = s"
| "js_less_eq (Inf s) (Fin b) = (\<not> s)"
| "js_less_eq (Inf s) (Inf t) = (if s then t else True)"
| "js_less_eq NaN b = False"
| "js_less_eq a NaN = False"

text \<open>
  The arithmetic and comparison operators of the source are written with the usual
  symbols: \<open>a + b\<close>, \<open>a - b\<close>, \<open>a * b\<close>, \<open>a / b\<close>, \<open>a < b\<close>, and numerals such as
  \<open>0.02\<close> denote the finite number of that value.
\<close>

instantiation jsnum :: "{zero, one, plus, minus, uminus, times, inverse, ord}"
begin

definition zero_jsnum :: jsnum where "zero_jsnum = Fin 0"
definition one_jsnum :: jsnum where "one_jsnum = Fin 1"
definition plus_jsnum :: "jsnum \<Rightarrow> jsnum \<Rightarrow> jsnum" where "plus_jsnum = js_add"
definition uminus_jsnum :: "jsnum \<Rightarrow> jsnum" where "uminus_jsnum = js_neg"
definition minus_jsnum :: "jsnum \<Rightarrow> jsnum \<Rightarrow> jsnum" where
  "minus_jsnum a b = js_add a (js_neg b)"
definition times_jsnum :: "jsnum \<Rightarrow> jsnum \<Rightarrow> jsnum" where "times_jsnum = js_mul"
definition divide_jsnum :: "jsnum \<Rightarrow> jsnum \<Rightarrow> jsnum" where "divide_jsnum = js_div"
definition inverse_jsnum :: "jsnum \<Rightarrow> jsnum" where "inverse_jsnum a = js_div (Fin 1) a"
definition less_jsnum :: "jsnum \<Rightarrow> jsnum \<Rightarrow> bool" where "less_jsnum = js_less"
definition less_eq_jsnum :: "jsnum \<Rightarrow> jsnum \<Rightarrow> bool" where "less_eq_jsnum = js_less_eq"

instance ..

end

instance jsnum :: semigroup_add
proof
  fix a b c :: jsnum
  show "a + b + c = a + (b + c)"
    unfolding plus_jsnum_def
    by (cases a; cases b; cases c) auto
qed

instance jsnum :: numeral ..

instance jsnum :: power ..

subsection \<open>The \<open>Math\<close> functions the source calls\<close>

fun Math_sin :: "jsnum \<Rightarrow> jsnum" where
  "Math_sin (Fin a) = Fin (sin a)"
| "Math_sin (Inf s) = NaN"
| "Math_sin NaN = NaN"

fun Math_cos :: "jsnum \<Rightarrow> jsnum" where
  "Math_cos (Fin a) = Fin (cos a)"
| "Math_cos (Inf s) = NaN"
| "Math_cos NaN = NaN"

fun Math_acos :: "jsnum \<Rightarrow> jsnum" where
  "Math_acos (Fin a) = (if - 1 \<le> a \<and> a \<le> 1 then Fin (arccos a) else NaN)"
| "Math_acos (Inf s) = NaN"
| "Math_acos NaN = NaN"

fun Math_sqrt :: "jsnum \<Rightarrow> jsnum" where
  "Math_sqrt (Fin a) = (if a < 0 then NaN else Fin (sqrt a))"
| "Math_sqrt (Inf s) = (if s then Inf True else NaN)"
| "Math_sqrt NaN = NaN"

fun Math_floor :: "jsnum \<Rightarrow> jsnum" where
  "Math_floor (Fin a) = Fin (of_int \<lfloor>a\<rfloor>)"
| "Math_floor (Inf s) = Inf s"
| "Math_floor NaN = NaN"

text \<open>\<open>Math.round\<close> rounds to the nearest integer, a half towards \<open>+Infinity\<close>.\<close>

fun Math_round :: "jsnum \<Rightarrow> jsnum" where
  "Math_round (Fin a) = Fin (of_int \<lfloor>a + 1 / 2\<rfloor>)"
| "Math_round (Inf s) = Inf s"
| "Math_round NaN = NaN"

fun Math_min :: "jsnum \<Rightarrow> jsnum \<Rightarrow> jsnum" where
  "Math_min (Fin a) (Fin b) = Fin (min a b)"
| "Math_min (Fin a) (Inf s) = (if s then Fin a else Inf False)"
| "Math_min (Inf s) (Fin b) = (if s then Fin b else Inf False)"
| "Math_min (Inf s) (Inf t) = Inf (s \<and> t)"
| "Math_min NaN b = NaN"
| "Math_min a NaN = NaN"

text \<open>
  \<open>Math.pow(x, n)\<close> for the literal exponents \<open>2\<close> and \<open>3\<close> of the source, and
  \<open>Math.pow(x, 0.5)\<close>, which is \<open>NaN\<close> on a negative finite base and \<open>Infinity\<close> on either
  infinity.
\<close>

fun Math_pow_nat :: "jsnum \<Rightarrow> nat \<Rightarrow> jsnum" where
  "Math_pow_nat (Fin a) n = Fin (a ^ n)"
| "Math_pow_nat (Inf s) n = (if n = 0 then Fin 1 else Inf (s \<or> even n))"
| "Math_pow_nat NaN n = (if n = 0 then Fin 1 else NaN)"

fun Math_pow_half :: "jsnum \<Rightarrow> jsnum" where
  "Math_pow_half (Fin a) = (if a < 0 then NaN else Fin (sqrt a))"
| "Math_pow_half (Inf s) = Inf True"
| "Math_pow_half NaN = NaN"

text \<open>The remainder operator \<open>%\<close>: the result takes the sign of the dividend.\<close>

fun js_rem :: "jsnum \<Rightarrow> jsnum \<Rightarrow> jsnum" where
  "js_rem (Fin a) (Fin b) =
     (if b = 0 then NaN
      else Fin (a - b * of_int (if 0 \<le> a / b then \<lfloor>a / b\<rfloor> else \<lceil>a / b\<rceil>)))"
| "js_rem (Fin a) (Inf s) = Fin a"
| "js_rem (Inf s) b = NaN"
| "js_rem NaN b = NaN"
| "js_rem a NaN = NaN"

definition Math_PI :: jsnum where
  "Math_PI = Fin pi"

text \<open>A non-negative integer (a loop index, an array length) as a number.\<close>

definition num :: "nat \<Rightarrow> jsnum" where
  "num n = Fin (real n)"

section \<open>The random source\<close>

text \<open>
  \<open>Math.random()\<close> reads an ambient generator. Here the generator is a fixed sequence
  of draws \<open>R 0, R 1, ...\<close> and a cursor that is threaded through the code: every call
  returns the draw at the cursor and advances the cursor by one. The contract of
  \<open>Math.random\<close> (a finite number in \<open>[0, 1)\<close>) is the predicate \<open>draws_ok\<close>.
\<close>

type_synonym rng = "nat \<Rightarrow> real"

definition Math_random :: "rng \<Rightarrow> nat \<Rightarrow> jsnum" where
  "Math_random R k = Fin (R k)"

definition draws_ok :: "rng \<Rightarrow> bool" where
  "draws_ok R = (\<forall>k. 0 \<le> R k \<and> R k < 1)"

section \<open>Shape kinds\<close>

text \<open>
  The string enum \<open>VisualShape\<close>: the members that \<open>types.ts\<close> and the table
  \<open>SHAPE_LABELS\<close> of \<open>constants.ts\<close> list, in their order. At run time a kind is a
  string, so \<open>UNRECOGNIZED s\<close> stands for any value that is no member of the enum.
\<close>

datatype VisualShape =
    SPHERE
  | GALAXY_SPIRAL
  | LORENZ_ATTRACTOR
  | MOBIUS_STRIP
  | MENGER_SPONGE_APPROX
  | PENROSE_TRIANGLE_APPROX
  | CARDIOID_HEART
  | DNA_HELIX
  | CUBE_GRID
  | TORUS
  | KLEIN_BOTTLE
  | VOXEL_GRID
  | CYBER_FLOWER
  | LIQUID_WAVE
  | PULSING_BLACK_HOLE
  | AIZAWA_ATTRACTOR
  | THOMAS_ATTRACTOR
  | CLIFFORD_ATTRACTOR
  | UNRECOGNIZED string

section \<open>Vectors\<close>

text \<open>
  \<open>THREE.Vector3\<close>, with the three methods the generator calls. \<open>setFromSphericalCoords\<close>
  is three.js's: \<open>x = sin phi * radius * sin theta\<close>, \<open>y = cos phi * radius\<close>,
  \<open>z = sin phi * radius * cos theta\<close>.
\<close>

record vec3 =
  vx :: jsnum
  vy :: jsnum
  vz :: jsnum

definition vec3_set :: "vec3 \<Rightarrow> jsnum \<Rightarrow> jsnum \<Rightarrow> jsnum \<Rightarrow> vec3" where
  "vec3_set v a b c = v\<lparr>vx := a, vy := b, vz := c\<rparr>"

definition multiplyScalar :: "vec3 \<Rightarrow> jsnum \<Rightarrow> vec3" where
  "multiplyScalar v s = v\<lparr>vx := vx v * s, vy := vy v * s, vz := vz v * s\<rparr>"

definition setFromSphericalCoords :: "vec3 \<Rightarrow> jsnum \<Rightarrow> jsnum \<Rightarrow> jsnum \<Rightarrow> vec3" where
  "setFromSphericalCoords v radius phi theta =
     (let sinPhiRadius = Math_sin phi * radius
      in v\<lparr>vx := sinPhiRadius * Math_sin theta,
            vy := Math_cos phi * radius,
            vz := sinPhiRadius * Math_cos theta\<rparr>)"

section \<open>The shape generator: one definition per case of the switch\<close>

text \<open>The helper \<open>map\<close> of \<open>mathShapes\<close>: \<open>min + val * (max - min)\<close>.\<close>

definition map_range :: "jsnum \<Rightarrow> jsnum \<Rightarrow> jsnum \<Rightarrow> jsnum" where
  "map_range val lo hi = lo + val * (hi - lo)"

text \<open>
  Each case takes the vector \<open>dummy\<close> as the previous iteration left it and returns it
  updated. A case that calls \<open>Math.random()\<close> itself also takes the cursor and returns
  the new one.
\<close>

definition case_SPHERE :: "jsnum \<Rightarrow> jsnum \<Rightarrow> jsnum \<Rightarrow> jsnum \<Rightarrow> vec3 \<Rightarrow> vec3" where
  "case_SPHERE chaosLevel r1 r2 r3 dummy =
     (let theta = 2 * Math_PI * r1;
          phi = Math_acos (2 * r2 - 1);
          radius = 10 + (r3 * chaosLevel * 5)
      in setFromSphericalCoords dummy radius phi theta)"

definition case_GALAXY_SPIRAL :: "jsnum \<Rightarrow> jsnum \<Rightarrow> jsnum \<Rightarrow> jsnum \<Rightarrow> jsnum \<Rightarrow> vec3 \<Rightarrow> vec3" where
  "case_GALAXY_SPIRAL chaosLevel t r1 r2 r3 dummy =
     (let arms = 3 + Math_floor (chaosLevel * 4);
          spin = t * arms * Math_PI * 2;
          distance = Math_pow_half r1 * 20;
          armOffset = (Math_floor (r2 * arms) / arms) * Math_PI * 2
      in dummy\<lparr>vx := Math_cos (spin + armOffset) * distance,
                vy := (r3 - 0.5) * (distance * 0.2),
                vz := Math_sin (spin + armOffset) * distance\<rparr>)"

text \<open>
  The first generator's Lorenz case: one explicit Euler step of the loop body, run
  \<open>100 + i % 2000\<close> times from \<open>(0.1, 0, 0)\<close>.
\<close>

definition lorenz_step :: "jsnum \<times> jsnum \<times> jsnum \<Rightarrow> jsnum \<times> jsnum \<times> jsnum" where
  "lorenz_step s =
     (case s of (x, y, z) \<Rightarrow>
        let dt = 0.005; sigma = 10; rho = 28; beta = 8 / 3;
            dx = sigma * (y - x) * dt;
            dy = (x * (rho - z) - y) * dt;
            dz = (x * y - beta * z) * dt
        in (x + dx, y + dy, z + dz))"

definition case_LORENZ_ATTRACTOR_1 :: "nat \<Rightarrow> vec3 \<Rightarrow> vec3" where
  "case_LORENZ_ATTRACTOR_1 i dummy =
     (let steps = 100 + i mod 2000
      in case (lorenz_step ^^ steps) (0.1, 0, 0) of (x, y, z) \<Rightarrow>
           multiplyScalar (vec3_set dummy x y (z - 25)) 0.8)"

definition case_MOBIUS_STRIP :: "jsnum \<Rightarrow> jsnum \<Rightarrow> vec3 \<Rightarrow> vec3" where
  "case_MOBIUS_STRIP r1 r2 dummy =
     (let u = r1 * Math_PI * 2;
          v = map_range r2 (- 1) 1;
          radius = 10
      in dummy\<lparr>vx := (radius + v / 2 * Math_cos (u / 2)) * Math_cos u,
                vy := (radius + v / 2 * Math_cos (u / 2)) * Math_sin u,
                vz := v / 2 * Math_sin (u / 2) * 5\<rparr>)"

definition case_CARDIOID_HEART :: "jsnum \<Rightarrow> jsnum \<Rightarrow> vec3 \<Rightarrow> vec3" where
  "case_CARDIOID_HEART r1 r2 dummy =
     (let u = r1 * Math_PI;
          v = r2 * Math_PI * 2;
          scale = 1.5
      in dummy\<lparr>vx := scale * 16 * Math_pow_nat (Math_sin v) 3 * Math_sin u,
                vy := scale * (13 * Math_cos v - 5 * Math_cos (2 * v)
                               - 2 * Math_cos (3 * v) - Math_cos (4 * v)),
                vz := scale * 16 * Math_pow_nat (Math_sin v) 3 * Math_cos u\<rparr>)"

definition case_DNA_HELIX :: "jsnum \<Rightarrow> nat \<Rightarrow> jsnum \<Rightarrow> jsnum \<Rightarrow> vec3 \<Rightarrow> vec3" where
  "case_DNA_HELIX chaosLevel i t r3 dummy =
     (let turns = 5;
          h = map_range t (- 15) 15;
          angle = t * Math_PI * 2 * turns;
          radius = 6;
          strand = (if i mod 2 = 0 then 0 else Math_PI);
          d1 = dummy\<lparr>vx := Math_cos (angle + strand) * radius\<rparr>;
          d2 = d1\<lparr>vz := Math_sin (angle + strand) * radius\<rparr>;
          d3 = d2\<lparr>vy := h * 2\<rparr>;
          d4 = d3\<lparr>vx := vx d3 + (r3 - 0.5) * chaosLevel * 2\<rparr>
      in d4\<lparr>vz := vz d4 + (r3 - 0.5) * chaosLevel * 2\<rparr>)"

text \<open>The Menger case's \<open>snap\<close>: one draw decides whether the value is snapped.\<close>

definition menger_snap :: "jsnum \<Rightarrow> rng \<Rightarrow> nat \<Rightarrow> jsnum \<Rightarrow> jsnum" where
  "menger_snap chaosLevel R k val =
     (let size = 20 in
      if chaosLevel < Math_random R k
      then (let step = size / 3 in Math_round (val / step) * step)
      else val)"

definition case_MENGER_SPONGE_APPROX ::
  "jsnum \<Rightarrow> jsnum \<Rightarrow> jsnum \<Rightarrow> jsnum \<Rightarrow> rng \<Rightarrow> vec3 \<times> nat \<Rightarrow> vec3 \<times> nat" where
  "case_MENGER_SPONGE_APPROX chaosLevel r1 r2 r3 R s =
     (case s of (dummy, k) \<Rightarrow>
        let size = 20;
            d1 = dummy\<lparr>vx := menger_snap chaosLevel R k (map_range r1 (- size) size)\<rparr>;
            d2 = d1\<lparr>vy := menger_snap chaosLevel R (k + 1) (map_range r2 (- size) size)\<rparr>;
            d3 = d2\<lparr>vz := menger_snap chaosLevel R (k + 2) (map_range r3 (- size) size)\<rparr>
        in (d3, k + 3))"

definition case_PENROSE_TRIANGLE_APPROX ::
  "jsnum \<Rightarrow> nat \<Rightarrow> rng \<Rightarrow> vec3 \<times> nat \<Rightarrow> vec3 \<times> nat" where
  "case_PENROSE_TRIANGLE_APPROX chaosLevel i R s =
     (case s of (dummy, k) \<Rightarrow>
        let leg = i mod 3;
            pos = map_range (Math_random R k) (- 10) 10;
            thickness = 2 + chaosLevel
        in if leg = 0 then
             (let d1 = vec3_set dummy pos (- 10) 0;
                  d2 = d1\<lparr>vz := vz d1 + (Math_random R (k + 1) - 0.5) * thickness\<rparr>;
                  d3 = d2\<lparr>vy := vy d2 + (Math_random R (k + 2) - 0.5) * thickness\<rparr>
              in (d3, k + 3))
           else if leg = 1 then
             (let d1 = vec3_set dummy (10 - (pos + 10) / 2) (- 10 + (pos + 10) * 0.866) 0;
                  d2 = d1\<lparr>vz := vz d1 + (Math_random R (k + 1) - 0.5) * thickness\<rparr>
              in (d2, k + 2))
           else
             (let d1 = vec3_set dummy (- 10 + (pos + 10) / 2) (- 10 + (pos + 10) * 0.866) 0;
                  d2 = d1\<lparr>vz := vz d1 + (Math_random R (k + 1) - 0.5) * thickness\<rparr>
              in (d2, k + 2)))"

definition case_TORUS :: "jsnum \<Rightarrow> jsnum \<Rightarrow> jsnum \<Rightarrow> vec3 \<Rightarrow> vec3" where
  "case_TORUS chaosLevel r1 r2 dummy =
     (let R = 15;
          r = 5 + chaosLevel * 3;
          u = r1 * Math_PI * 2;
          v = r2 * Math_PI * 2
      in dummy\<lparr>vx := (R + r * Math_cos v) * Math_cos u,
                vy := (R + r * Math_cos v) * Math_sin u,
                vz := r * Math_sin v\<rparr>)"

definition case_KLEIN_BOTTLE :: "jsnum \<Rightarrow> jsnum \<Rightarrow> vec3 \<Rightarrow> vec3" where
  "case_KLEIN_BOTTLE r1 r2 dummy =
     (let u = r1 * Math_PI * 2;
          v = r2 * Math_PI * 2;
          r_tube = 6;
          cU2 = Math_cos (u / 2);
          sU2 = Math_sin (u / 2);
          sV = Math_sin v;
          s2V = Math_sin (2 * v);
          temp = r_tube + cU2 * sV - sU2 * s2V;
          d1 = dummy\<lparr>vx := temp * Math_cos u\<rparr>;
          d2 = d1\<lparr>vz := temp * Math_sin u\<rparr>;
          d3 = d2\<lparr>vy := sU2 * sV + cU2 * s2V\<rparr>
      in multiplyScalar d3 2.0)"

definition voxel_snap :: "jsnum \<Rightarrow> jsnum" where
  "voxel_snap v =
     (let size = 25; steps = 6; stepSize = (size * 2) / steps
      in Math_round (v / stepSize) * stepSize)"

definition case_VOXEL_GRID ::
  "jsnum \<Rightarrow> jsnum \<Rightarrow> jsnum \<Rightarrow> jsnum \<Rightarrow> rng \<Rightarrow> vec3 \<times> nat \<Rightarrow> vec3 \<times> nat" where
  "case_VOXEL_GRID chaosLevel r1 r2 r3 R s =
     (case s of (dummy, k) \<Rightarrow>
        let size = 25;
            d1 = dummy\<lparr>vx := voxel_snap (map_range r1 (- size) size)\<rparr>;
            d2 = d1\<lparr>vy := voxel_snap (map_range r2 (- size) size)\<rparr>;
            d3 = d2\<lparr>vz := voxel_snap (map_range r3 (- size) size)\<rparr>;
            d4 = d3\<lparr>vx := vx d3 + (Math_random R k - 0.5) * chaosLevel * 2\<rparr>;
            d5 = d4\<lparr>vy := vy d4 + (Math_random R (k + 1) - 0.5) * chaosLevel * 2\<rparr>;
            d6 = d5\<lparr>vz := vz d5 + (Math_random R (k + 2) - 0.5) * chaosLevel * 2\<rparr>
        in (d6, k + 3))"

definition case_CYBER_FLOWER :: "jsnum \<Rightarrow> nat \<Rightarrow> jsnum \<Rightarrow> jsnum \<Rightarrow> vec3 \<Rightarrow> vec3" where
  "case_CYBER_FLOWER chaosLevel i r1 r2 dummy =
     (let theta = r1 * Math_PI * 2;
          phi = r2 * Math_PI;
          k = 4 + Math_floor (chaosLevel * 3);
          rBase = 15;
          rVar = 10 * Math_sin (k * theta) * Math_sin (k * phi);
          r = rBase + rVar;
          d1 = setFromSphericalCoords dummy r phi theta
      in if i mod 10 = 0 then multiplyScalar d1 0.2 else d1)"

definition case_LIQUID_WAVE :: "nat \<Rightarrow> nat \<Rightarrow> rng \<Rightarrow> vec3 \<times> nat \<Rightarrow> vec3 \<times> nat" where
  "case_LIQUID_WAVE count i R s =
     (case s of (dummy, k) \<Rightarrow>
        let size = 40;
            cols = Math_floor (Math_sqrt (num count));
            row = Math_floor (num i / cols);
            col = js_rem (num i) cols;
            x = map_range (col / cols) (- size) size;
            z = map_range (row / cols) (- size) size;
            d1 = vec3_set dummy x 0 z;
            d2 = d1\<lparr>vx := vx d1 + (Math_random R k - 0.5) * 2\<rparr>;
            d3 = d2\<lparr>vz := vz d2 + (Math_random R (k + 1) - 0.5) * 2\<rparr>
        in (d3, k + 2))"

definition case_PULSING_BLACK_HOLE ::
  "nat \<Rightarrow> nat \<Rightarrow> jsnum \<Rightarrow> jsnum \<Rightarrow> rng \<Rightarrow> vec3 \<times> nat \<Rightarrow> vec3 \<times> nat" where
  "case_PULSING_BLACK_HOLE count i r1 r2 R s =
     (case s of (dummy, k) \<Rightarrow>
        if num i < num count * 0.2 then
          (let theta = Math_random R k * Math_PI * 2;
               phi = Math_acos (2 * Math_random R (k + 1) - 1);
               r = 5 + Math_random R (k + 2)
           in (setFromSphericalCoords dummy r phi theta, k + 3))
        else
          (let angle = r1 * Math_PI * 2;
               dist = 8 + (r2 * 25);
               heightVar = (1.0 / dist) * 10.0;
               d1 = dummy\<lparr>vx := Math_cos angle * dist\<rparr>;
               d2 = d1\<lparr>vz := Math_sin angle * dist\<rparr>;
               d3 = d2\<lparr>vy := (Math_random R k - 0.5) * heightVar\<rparr>;
               twist = dist * 0.2;
               tx = vx d3 * Math_cos twist - vz d3 * Math_sin twist;
               tz = vx d3 * Math_sin twist + vz d3 * Math_cos twist;
               d4 = d3\<lparr>vx := tx\<rparr>
           in (d4\<lparr>vz := tz\<rparr>, k + 1)))"

definition case_default :: "jsnum \<Rightarrow> jsnum \<Rightarrow> jsnum \<Rightarrow> vec3 \<Rightarrow> vec3" where
  "case_default r1 r2 r3 dummy =
     (let s = 15;
          d1 = dummy\<lparr>vx := map_range r1 (- s) s\<rparr>;
          d2 = d1\<lparr>vy := map_range r2 (- s) s\<rparr>
      in d2\<lparr>vz := map_range r3 (- s) s\<rparr>)"

subsection \<open>The attractor cases of the second generator\<close>

text \<open>
  They share the variables \<open>ax, ay, az\<close>, declared before the loop: the state of one
  continuous integration, restarted at every 500th (Thomas: 1000th) particle.
\<close>

type_synonym attractor = "jsnum \<times> jsnum \<times> jsnum"

definition case_LORENZ_ATTRACTOR_2 ::
  "nat \<Rightarrow> rng \<Rightarrow> vec3 \<times> attractor \<times> nat \<Rightarrow> vec3 \<times> attractor \<times> nat" where
  "case_LORENZ_ATTRACTOR_2 i R s =
     (case s of (dummy, (ax0, ay0, az0), k0) \<Rightarrow>
        let dt = 0.005; sigma = 10; rho = 28; beta = 8 / 3;
            (ax, ay, az, k) =
               (if i mod 500 = 0
                then (0.1 + (Math_random R k0 - 0.5) * 10, 0.1, 0.1, k0 + 1)
                else (ax0, ay0, az0, k0));
            dx = sigma * (ay - ax) * dt;
            dy = (ax * (rho - az) - ay) * dt;
            dz = (ax * ay - beta * az) * dt;
            ax' = ax + dx;
            ay' = ay + dy;
            az' = az + dz
        in (multiplyScalar (vec3_set dummy ax' ay' (az' - 25)) 0.8, (ax', ay', az'), k))"

definition case_AIZAWA_ATTRACTOR ::
  "nat \<Rightarrow> rng \<Rightarrow> vec3 \<times> attractor \<times> nat \<Rightarrow> vec3 \<times> attractor \<times> nat" where
  "case_AIZAWA_ATTRACTOR i R s =
     (case s of (dummy, (ax0, ay0, az0), k0) \<Rightarrow>
        let dt = 0.01;
            a = 0.95; b = 0.7; c = 0.6; d = 3.5; e = 0.25; f = 0.1;
            (ax, ay, az, k) =
               (if i mod 500 = 0
                then (0.1 + (Math_random R k0 - 0.5) * 2, 0, 0, k0 + 1)
                else (ax0, ay0, az0, k0));
            dx = (az - b) * ax - d * ay;
            dy = d * ax + (az - b) * ay;
            dz = c + a * az - (Math_pow_nat az 3 / 3)
                 - (Math_pow_nat ax 2 + Math_pow_nat ay 2) * (1 + e * az)
                 + f * az * Math_pow_nat ax 3;
            ax' = ax + dx * dt;
            ay' = ay + dy * dt;
            az' = az + dz * dt
        in (vec3_set dummy (ax' * 15) (ay' * 15) (az' * 15), (ax', ay', az'), k))"

definition case_THOMAS_ATTRACTOR ::
  "nat \<Rightarrow> rng \<Rightarrow> vec3 \<times> attractor \<times> nat \<Rightarrow> vec3 \<times> attractor \<times> nat" where
  "case_THOMAS_ATTRACTOR i R s =
     (case s of (dummy, (ax0, ay0, az0), k0) \<Rightarrow>
        let b_const = 0.208186;
            dt = 0.05;
            (ax, ay, az, k) =
               (if i mod 1000 = 0
                then (0.1 + (Math_random R k0 - 0.5) * 2, 0.1, 0.1, k0 + 1)
                else (ax0, ay0, az0, k0));
            dx = Math_sin ay - b_const * ax;
            dy = Math_sin az - b_const * ay;
            dz = Math_sin ax - b_const * az;
            ax' = ax + dx * dt;
            ay' = ay + dy * dt;
            az' = az + dz * dt
        in (multiplyScalar (vec3_set dummy (ax' * 4) (ay' * 4) (az' * 4)) 8.0,
            (ax', ay', az'), k))"

definition case_CLIFFORD_ATTRACTOR ::
  "nat \<Rightarrow> rng \<Rightarrow> vec3 \<times> attractor \<times> nat \<Rightarrow> vec3 \<times> attractor \<times> nat" where
  "case_CLIFFORD_ATTRACTOR i R s =
     (case s of (dummy, (ax0, ay0, az0), k0) \<Rightarrow>
        let a_const = 1.4;
            dt = 0.005;
            (ax, ay, az, k) =
               (if i mod 500 = 0
                then (1 + (Math_random R k0 - 0.5), 0, 0, k0 + 1)
                else (ax0, ay0, az0, k0));
            dx = - a_const * ax - 4 * ay - 4 * az - ay * ay;
            dy = - a_const * ay - 4 * az - 4 * ax - az * az;
            dz = - a_const * az - 4 * ax - 4 * ay - ax * ax;
            ax' = ax + dx * dt;
            ay' = ay + dy * dt;
            az' = az + dz * dt
        in (multiplyScalar (vec3_set dummy ax' ay' az') 6.0, (ax', ay', az'), k))"

section \<open>\<open>getShapePositions\<close>\<close>

text \<open>
  The state of the \<open>for\<close> loop: the \<open>Float32Array\<close> under construction, the vector
  \<open>dummy\<close> (allocated once, before the loop), and the cursor of the random source.
  A store into a typed array at an index outside it is ignored, as \<open>xs[i := v]\<close> is.
\<close>

record gen =
  positions :: "jsnum list"
  dummy :: vec3
  cursor :: nat

definition store_point :: "jsnum list \<Rightarrow> nat \<Rightarrow> vec3 \<Rightarrow> jsnum list" where
  "store_point ps idx d = ps[idx := vx d, idx + 1 := vy d, idx + 2 := vz d]"

subsection \<open>The first implementation\<close>

definition body_1 :: "VisualShape \<Rightarrow> nat \<Rightarrow> jsnum \<Rightarrow> rng \<Rightarrow> nat \<Rightarrow> gen \<Rightarrow> gen" where
  "body_1 type count chaosLevel R i st =
     (let idx = i * 3;
          t = num i / num count;
          r1 = Math_random R (cursor st);
          r2 = Math_random R (cursor st + 1);
          r3 = Math_random R (cursor st + 2);
          k = cursor st + 3;
          d = dummy st;
          (d', k') =
            (case type of
               SPHERE \<Rightarrow> (case_SPHERE chaosLevel r1 r2 r3 d, k)
             | GALAXY_SPIRAL \<Rightarrow> (case_GALAXY_SPIRAL chaosLevel t r1 r2 r3 d, k)
             | LORENZ_ATTRACTOR \<Rightarrow> (case_LORENZ_ATTRACTOR_1 i d, k)
             | MOBIUS_STRIP \<Rightarrow> (case_MOBIUS_STRIP r1 r2 d, k)
             | CARDIOID_HEART \<Rightarrow> (case_CARDIOID_HEART r1 r2 d, k)
             | DNA_HELIX \<Rightarrow> (case_DNA_HELIX chaosLevel i t r3 d, k)
             | MENGER_SPONGE_APPROX \<Rightarrow> case_MENGER_SPONGE_APPROX chaosLevel r1 r2 r3 R (d, k)
             | PENROSE_TRIANGLE_APPROX \<Rightarrow> case_PENROSE_TRIANGLE_APPROX chaosLevel i R (d, k)
             | TORUS \<Rightarrow> (case_TORUS chaosLevel r1 r2 d, k)
             | KLEIN_BOTTLE \<Rightarrow> (case_KLEIN_BOTTLE r1 r2 d, k)
             | VOXEL_GRID \<Rightarrow> case_VOXEL_GRID chaosLevel r1 r2 r3 R (d, k)
             | CYBER_FLOWER \<Rightarrow> (case_CYBER_FLOWER chaosLevel i r1 r2 d, k)
             | LIQUID_WAVE \<Rightarrow> case_LIQUID_WAVE count i R (d, k)
             | PULSING_BLACK_HOLE \<Rightarrow> case_PULSING_BLACK_HOLE count i r1 r2 R (d, k)
             | _ \<Rightarrow> (case_default r1 r2 r3 d, k))
      in \<lparr>positions = store_point (positions st) idx d', dummy = d', cursor = k'\<rparr>)"

definition init_1 :: "nat \<Rightarrow> nat \<Rightarrow> gen" where
  "init_1 count k =
     \<lparr>positions = replicate (count * 3) 0,
      dummy = \<lparr>vx = 0, vy = 0, vz = 0\<rparr>,
      cursor = k\<rparr>"

text \<open>
  \<open>loop_1 ... n\<close> is the state after the iterations \<open>i = 0, ..., n - 1\<close>; the function
  runs them all. \<open>k\<close> is the cursor of the random source at the call.
\<close>

definition loop_1 :: "VisualShape \<Rightarrow> nat \<Rightarrow> jsnum \<Rightarrow> rng \<Rightarrow> nat \<Rightarrow> nat \<Rightarrow> gen" where
  "loop_1 type count chaosLevel R k n =
     fold (body_1 type count chaosLevel R) [0..<n] (init_1 count k)"

definition getShapePositions_1 :: "VisualShape \<Rightarrow> nat \<Rightarrow> jsnum \<Rightarrow> rng \<Rightarrow> nat \<Rightarrow> jsnum list" where
  "getShapePositions_1 type count chaosLevel R k =
     positions (loop_1 type count chaosLevel R k count)"

subsection \<open>The second implementation\<close>

record gen2 = gen +
  att :: attractor

definition body_2 :: "VisualShape \<Rightarrow> nat \<Rightarrow> jsnum \<Rightarrow> rng \<Rightarrow> nat \<Rightarrow> gen2 \<Rightarrow> gen2" where
  "body_2 type count chaosLevel R i st =
     (let idx = i * 3;
          t = num i / num count;
          r1 = Math_random R (cursor st);
          r2 = Math_random R (cursor st + 1);
          r3 = Math_random R (cursor st + 2);
          k = cursor st + 3;
          d = dummy st;
          a = att st;
          (d', a', k') =
            (case type of
               SPHERE \<Rightarrow> (case_SPHERE chaosLevel r1 r2 r3 d, a, k)
             | GALAXY_SPIRAL \<Rightarrow> (case_GALAXY_SPIRAL chaosLevel t r1 r2 r3 d, a, k)
             | LORENZ_ATTRACTOR \<Rightarrow> case_LORENZ_ATTRACTOR_2 i R (d, a, k)
             | MOBIUS_STRIP \<Rightarrow> (case_MOBIUS_STRIP r1 r2 d, a, k)
             | CARDIOID_HEART \<Rightarrow> (case_CARDIOID_HEART r1 r2 d, a, k)
             | DNA_HELIX \<Rightarrow> (case_DNA_HELIX chaosLevel i t r3 d, a, k)
             | MENGER_SPONGE_APPROX \<Rightarrow>
                 (case case_MENGER_SPONGE_APPROX chaosLevel r1 r2 r3 R (d, k) of
                    (d1, k1) \<Rightarrow> (d1, a, k1))
             | PENROSE_TRIANGLE_APPROX \<Rightarrow>
                 (case case_PENROSE_TRIANGLE_APPROX chaosLevel i R (d, k) of
                    (d1, k1) \<Rightarrow> (d1, a, k1))
             | TORUS \<Rightarrow> (case_TORUS chaosLevel r1 r2 d, a, k)
             | KLEIN_BOTTLE \<Rightarrow> (case_KLEIN_BOTTLE r1 r2 d, a, k)
             | VOXEL_GRID \<Rightarrow>
                 (case case_VOXEL_GRID chaosLevel r1 r2 r3 R (d, k) of
                    (d1, k1) \<Rightarrow> (d1, a, k1))
             | CYBER_FLOWER \<Rightarrow> (case_CYBER_FLOWER chaosLevel i r1 r2 d, a, k)
             | LIQUID_WAVE \<Rightarrow>
                 (case case_LIQUID_WAVE count i R (d, k) of (d1, k1) \<Rightarrow> (d1, a, k1))
             | PULSING_BLACK_HOLE \<Rightarrow>
                 (case case_PULSING_BLACK_HOLE count i r1 r2 R (d, k) of
                    (d1, k1) \<Rightarrow> (d1, a, k1))
             | AIZAWA_ATTRACTOR \<Rightarrow> case_AIZAWA_ATTRACTOR i R (d, a, k)
             | THOMAS_ATTRACTOR \<Rightarrow> case_THOMAS_ATTRACTOR i R (d, a, k)
             | CLIFFORD_ATTRACTOR \<Rightarrow> case_CLIFFORD_ATTRACTOR i R (d, a, k)
             | _ \<Rightarrow> (case_default r1 r2 r3 d, a, k))
      in \<lparr>positions = store_point (positions st) idx d', dummy = d', cursor = k', att = a'\<rparr>)"

definition init_2 :: "nat \<Rightarrow> nat \<Rightarrow> gen2" where
  "init_2 count k =
     \<lparr>positions = replicate (count * 3) 0,
      dummy = \<lparr>vx = 0, vy = 0, vz = 0\<rparr>,
      cursor = k,
      att = (0.1, 0, 0)\<rparr>"

definition loop_2 :: "VisualShape \<Rightarrow> nat \<Rightarrow> jsnum \<Rightarrow> rng \<Rightarrow> nat \<Rightarrow> nat \<Rightarrow> gen2" where
  "loop_2 type count chaosLevel R k n =
     fold (body_2 type count chaosLevel R) [0..<n] (init_2 count k)"

definition getShapePositions_2 :: "VisualShape \<Rightarrow> nat \<Rightarrow> jsnum \<Rightarrow> rng \<Rightarrow> nat \<Rightarrow> jsnum list" where
  "getShapePositions_2 type count chaosLevel R k =
     positions (loop_2 type count chaosLevel R k count)"

section \<open>The data of the scene\<close>

definition PARTICLE_COUNT :: nat where
  "PARTICLE_COUNT = 15000"

record VisualConfig =
  shape :: VisualShape
  colors :: "string \<times> string \<times> string"
  speed :: jsnum
  chaos :: jsnum
  description :: string

definition DEFAULT_VISUAL_CONFIG :: VisualConfig where
  "DEFAULT_VISUAL_CONFIG =
     \<lparr>shape = SPHERE,
      colors = (''#ffffff'', ''#88ccff'', ''#ff00aa''),
      speed = 1.0,
      chaos = 0.5,
      description = ''Waiting for music...''\<rparr>"

text \<open>\<open>AudioData\<close>: the bins are the bytes of a \<open>Uint8Array\<close>.\<close>

record AudioData =
  frequencyData :: "8 word list"
  averageFrequency :: jsnum

text \<open>
  Modelled from the spec: the type \<open>GestureState\<close>, whose declaration is not among the
  sources. The spec gives a hand the fields active, isFist, strength and a position
  x, y; the second scene reads them as \<open>gesture.leftHand\<close> and \<open>gesture.rightHand\<close>.
\<close>

record hand =
  active :: bool
  isFist :: bool
  strength :: jsnum
  hand_x :: jsnum
  hand_y :: jsnum

record GestureState =
  leftHand :: hand
  rightHand :: hand

text \<open>
  The uniforms of the main material that the frame callback writes. The three color
  uniforms, which it blends towards the configured colors, are left out: nothing else
  reads them.
\<close>

record uniforms =
  uTime :: jsnum
  uBeat :: jsnum
  uTreble :: jsnum
  uShapeMode :: jsnum

record uniforms2 = uniforms +
  uWarp :: jsnum
  uShrink :: jsnum
  uHandGrip :: jsnum
  uRightHandPos :: vec3
  uRightHandActive :: jsnum

text \<open>
  What the component keeps between frames. \<open>currentPos\<close> is the array \<open>positions\<close>
  that the geometry's position attribute renders; \<open>targetPositionsRef\<close> is a second
  array, allocated separately. \<open>materialRef\<close> and \<open>pointsRef\<close> are \<open>None\<close> while the
  objects are not mounted; of the points object only the rotation about y and z is
  kept. \<open>drawn\<close> is the cursor of the random source.
\<close>

record 'u scene =
  currentPos :: "jsnum list"
  targetPositionsRef :: "jsnum list"
  currentShapeRef :: VisualShape
  lastShapeChangeTime :: jsnum
  materialRef :: "'u option"
  pointsRef :: "(jsnum \<times> jsnum) option"
  drawn :: nat

text \<open>\<open>Object.values(VisualShape)\<close>, for the enum of either version.\<close>

definition allShapes_1 :: "VisualShape list" where
  "allShapes_1 =
     [SPHERE, GALAXY_SPIRAL, LORENZ_ATTRACTOR, MOBIUS_STRIP, MENGER_SPONGE_APPROX,
      PENROSE_TRIANGLE_APPROX, CARDIOID_HEART, DNA_HELIX, CUBE_GRID, TORUS, KLEIN_BOTTLE,
      VOXEL_GRID, CYBER_FLOWER, LIQUID_WAVE, PULSING_BLACK_HOLE]"

definition allShapes_2 :: "VisualShape list" where
  "allShapes_2 =
     [SPHERE, GALAXY_SPIRAL, LORENZ_ATTRACTOR, MOBIUS_STRIP, MENGER_SPONGE_APPROX,
      PENROSE_TRIANGLE_APPROX, CARDIOID_HEART, DNA_HELIX, CUBE_GRID, TORUS, KLEIN_BOTTLE,
      VOXEL_GRID, CYBER_FLOWER, LIQUID_WAVE, PULSING_BLACK_HOLE, AIZAWA_ATTRACTOR,
      THOMAS_ATTRACTOR, CLIFFORD_ATTRACTOR]"

section \<open>Arrays\<close>

text \<open>
  Reading a typed array outside its bounds gives \<open>undefined\<close>, which is \<open>NaN\<close> in
  arithmetic. Indexing an ordinary array with a number gives \<open>undefined\<close> unless the
  number is an index of the array; an undefined shape is no member of the enum.
  \<open>target.set(source)\<close> copies the source over the start of the target (a source
  longer than the target would raise a RangeError; the arrays of the scene and the
  buffers generated for it all have \<open>3 * PARTICLE_COUNT\<close> elements).
\<close>

definition elem :: "jsnum list \<Rightarrow> nat \<Rightarrow> jsnum" where
  "elem xs i = (if i < length xs then xs ! i else NaN)"

fun shape_at :: "VisualShape list \<Rightarrow> jsnum \<Rightarrow> VisualShape" where
  "shape_at xs (Fin a) =
     (if a = of_int \<lfloor>a\<rfloor> \<and> 0 \<le> a \<and> nat \<lfloor>a\<rfloor> < length xs then xs ! nat \<lfloor>a\<rfloor>
      else UNRECOGNIZED ''undefined'')"
| "shape_at xs (Inf s) = UNRECOGNIZED ''undefined''"
| "shape_at xs NaN = UNRECOGNIZED ''undefined''"

definition Float32Array_set :: "jsnum list \<Rightarrow> jsnum list \<Rightarrow> jsnum list" where
  "Float32Array_set target source = source @ drop (length source) target"

text \<open>\<open>THREE.MathUtils.lerp(x, y, t)\<close>.\<close>

definition lerp :: "jsnum \<Rightarrow> jsnum \<Rightarrow> jsnum \<Rightarrow> jsnum" where
  "lerp x y t = (1 - t) * x + t * y"

section \<open>Audio features\<close>

text \<open>
  The two features every frame callback derives from the audio data: the volume
  (energy) and the treble, the mean of the bins from \<open>Math.floor(length * 0.7)\<close> on,
  both divided by 255.
\<close>

definition volume_of :: "AudioData \<Rightarrow> jsnum" where
  "volume_of audio = averageFrequency audio / 255.0"

text \<open>
  The lower bound of the treble range is an array index, and here the rounding of the
  product decides it, so \<open>length * 0.7\<close> is computed as the language does, in binary64.
  The literal \<open>0.7\<close> denotes the double \<open>3152519739159347 / 2 ^ 52\<close>, a little below
  seven tenths. A length is an integer and exact, so the exact product is
  \<open>p / 2 ^ 52\<close> for the integer \<open>p = length * 3152519739159347\<close>, and the product the
  language returns is \<open>p\<close> rounded to 53 significant bits, ties to the even neighbour,
  over \<open>2 ^ 52\<close>. For 90 bins this is just below 63 and the floor is 62, where the
  floor of the exact \<open>90 * 7 / 10\<close> would be 63.
\<close>

definition double_0_7 :: nat where
  "double_0_7 = 3152519739159347"

text \<open>The number of binary digits of a natural number.\<close>

fun bits :: "nat \<Rightarrow> nat" where
  "bits n = (if n = 0 then 0 else Suc (bits (n div 2)))"

text \<open>
  Rounding to 53 significant bits: the \<open>s\<close> digits beyond the 53rd are cut off, and the
  last digit kept goes up when they are more than half a unit, or just half a unit
  with the digit kept odd.
\<close>

definition round_53 :: "nat \<Rightarrow> nat" where
  "round_53 p =
     (let s = bits p - 53;
          q = p div 2 ^ s;
          r = p mod 2 ^ s
      in (if 2 ^ s < 2 * r then q + 1
          else if 2 * r = 2 ^ s then (if q mod 2 = 1 then q + 1 else q)
          else q) * 2 ^ s)"

definition lowerBound_of :: "8 word list \<Rightarrow> nat" where
  "lowerBound_of dataArray = round_53 (length dataArray * double_0_7) div 2 ^ 52"

definition trebleSum_of :: "8 word list \<Rightarrow> jsnum" where
  "trebleSum_of dataArray =
     fold (\<lambda>i trebleSum. trebleSum + num (unat (dataArray ! i)))
       [lowerBound_of dataArray..<length dataArray] 0"

definition treble_of :: "AudioData \<Rightarrow> jsnum" where
  "treble_of audio =
     (let dataArray = frequencyData audio;
          lowerBound = lowerBound_of dataArray;
          trebleSum = trebleSum_of dataArray
      in (trebleSum / (num (length dataArray) - num lowerBound)) / 255.0)"

section \<open>The frame callback\<close>

subsection \<open>Shape switching\<close>

text \<open>
  The transition itself: a random other shape, a new target buffer for it, and the
  time of the change. It is the same in both scenes, up to the enum and the generator.
\<close>

definition transition ::
  "VisualShape list \<Rightarrow> (VisualShape \<Rightarrow> nat \<Rightarrow> jsnum \<Rightarrow> rng \<Rightarrow> nat \<Rightarrow> jsnum list \<times> nat) \<Rightarrow>
   VisualConfig \<Rightarrow> jsnum \<Rightarrow> jsnum \<Rightarrow> rng \<Rightarrow> ('u, 'a) scene_scheme \<Rightarrow> ('u, 'a) scene_scheme" where
  "transition allShapes generate config time volume R s =
     (let candidates = filter (\<lambda>x. x \<noteq> currentShapeRef s) allShapes;
          nextShape = shape_at candidates
                        (Math_floor (Math_random R (drawn s) * num (length candidates)));
          dynamicChaos = chaos config + (volume * 0.2);
          (newTargets, k) = generate nextShape PARTICLE_COUNT (Math_min 1 dynamicChaos) R (drawn s + 1)
      in s\<lparr>targetPositionsRef := Float32Array_set (targetPositionsRef s) newTargets,
           currentShapeRef := nextShape,
           lastShapeChangeTime := time,
           drawn := k\<rparr>)"

text \<open>The generators, each with the cursor it leaves the random source at.\<close>

definition generate_1 :: "VisualShape \<Rightarrow> nat \<Rightarrow> jsnum \<Rightarrow> rng \<Rightarrow> nat \<Rightarrow> jsnum list \<times> nat" where
  "generate_1 type count chaosLevel R k =
     (getShapePositions_1 type count chaosLevel R k,
      cursor (loop_1 type count chaosLevel R k count))"

definition generate_2 :: "VisualShape \<Rightarrow> nat \<Rightarrow> jsnum \<Rightarrow> rng \<Rightarrow> nat \<Rightarrow> jsnum list \<times> nat" where
  "generate_2 type count chaosLevel R k =
     (getShapePositions_2 type count chaosLevel R k,
      cursor (loop_2 type count chaosLevel R k count))"

definition morph_1 :: "VisualConfig \<Rightarrow> jsnum \<Rightarrow> jsnum \<Rightarrow> rng \<Rightarrow> uniforms scene \<Rightarrow> uniforms scene" where
  "morph_1 config time volume R s =
     (let timeSinceLastChange = time - lastShapeChangeTime s in
      if 8.0 < timeSinceLastChange then
        (let switchThreshold = 0.6;
             forceSwitchTime = 20.0
         in if switchThreshold < volume \<or> forceSwitchTime < timeSinceLastChange
            then transition allShapes_1 generate_1 config time volume R s
            else s)
      else s)"

definition morph_2 :: "VisualConfig \<Rightarrow> jsnum \<Rightarrow> jsnum \<Rightarrow> rng \<Rightarrow> uniforms2 scene \<Rightarrow> uniforms2 scene" where
  "morph_2 config time volume R s =
     (let timeSinceLastChange = time - lastShapeChangeTime s in
      if 6.0 < timeSinceLastChange then
        (let switchThreshold = 0.5;
             forceSwitchTime = 15.0
         in if switchThreshold < volume \<or> forceSwitchTime < timeSinceLastChange
            then transition allShapes_2 generate_2 config time volume R s
            else s)
      else s)"

subsection \<open>Uniforms\<close>

definition shapeMode_of :: "VisualShape \<Rightarrow> jsnum" where
  "shapeMode_of current =
     (if current = LIQUID_WAVE then 1.0
      else if current = CYBER_FLOWER then 2.0
      else if current = PULSING_BLACK_HOLE then 3.0
      else 0.0)"

definition uniforms_1 ::
  "VisualConfig \<Rightarrow> jsnum \<Rightarrow> jsnum \<Rightarrow> jsnum \<Rightarrow> uniforms scene \<Rightarrow> uniforms scene" where
  "uniforms_1 config time volume treble s =
     (case materialRef s of
        None \<Rightarrow> s
      | Some u \<Rightarrow>
          s\<lparr>materialRef :=
               Some (u\<lparr>uTime := time * speed config,
                       uBeat := volume * 3.0,
                       uTreble := treble * 2.0,
                       uShapeMode := shapeMode_of (currentShapeRef s)\<rparr>)\<rparr>)"

text \<open>
  The second scene also folds the gesture into the uniforms: the grip of the left hand
  (positive for a fist, negative for an open hand) and the position of the right hand,
  each blended with \<open>lerp\<close> into its previous value.
\<close>

definition gripVal_of :: "GestureState \<Rightarrow> jsnum" where
  "gripVal_of gesture =
     (if active (leftHand gesture) then
        (if isFist (leftHand gesture) then strength (leftHand gesture)
         else - strength (leftHand gesture))
      else 0.0)"

definition uniforms_2 ::
  "VisualConfig \<Rightarrow> GestureState \<Rightarrow> jsnum \<Rightarrow> jsnum \<Rightarrow> jsnum \<Rightarrow> uniforms2 scene \<Rightarrow> uniforms2 scene" where
  "uniforms_2 config gesture time volume treble s =
     (case materialRef s of
        None \<Rightarrow> s
      | Some u \<Rightarrow>
          (let u1 = u\<lparr>uTime := time * speed config,
                      uBeat := volume * 3.0,
                      uTreble := treble * 2.0,
                      uShapeMode := shapeMode_of (currentShapeRef s),
                      uWarp := 3.0 + Math_sin (time * 0.2) * 2.0,
                      uShrink := 1.0 - (volume * 0.2) + (Math_sin time * 0.1)\<rparr>;
               gripVal = gripVal_of gesture;
               currentGrip = uHandGrip u1;
               u2 = u1\<lparr>uHandGrip := lerp currentGrip gripVal 0.1\<rparr>;
               u3 = (if active (rightHand gesture) then
                       (let screenScale = 30.0;
                            currentX = vx (uRightHandPos u2);
                            currentY = vy (uRightHandPos u2)
                        in u2\<lparr>uRightHandActive := 1.0,
                              uRightHandPos :=
                                vec3_set (uRightHandPos u2)
                                  (lerp currentX (hand_x (rightHand gesture) * screenScale) 0.2)
                                  (lerp currentY (hand_y (rightHand gesture) * screenScale) 0.2)
                                  0\<rparr>)
                     else u2\<lparr>uRightHandActive := 0.0\<rparr>)
           in s\<lparr>materialRef := Some u3\<rparr>))"

subsection \<open>Particles\<close>

text \<open>
  One iteration of the particle loop: the three coordinates of particle \<open>i\<close> move
  towards the target by the fraction \<open>lerpSpeed\<close>; above a volume of 0.8 one draw
  pushes all three by the same amount.
\<close>

definition particle ::
  "jsnum list \<Rightarrow> jsnum \<Rightarrow> jsnum \<Rightarrow> rng \<Rightarrow> nat \<Rightarrow> jsnum list \<times> nat \<Rightarrow> jsnum list \<times> nat" where
  "particle targetPos lerpSpeed volume R i s =
     (case s of (currentPos0, k) \<Rightarrow>
        let i3 = i * 3;
            c1 = currentPos0[i3 := elem currentPos0 i3 + (elem targetPos i3 - elem currentPos0 i3) * lerpSpeed];
            c2 = c1[i3 + 1 := elem c1 (i3 + 1) + (elem targetPos (i3 + 1) - elem c1 (i3 + 1)) * lerpSpeed];
            c3 = c2[i3 + 2 := elem c2 (i3 + 2) + (elem targetPos (i3 + 2) - elem c2 (i3 + 2)) * lerpSpeed]
        in if 0.8 < volume then
             (let push = (Math_random R k - 0.5) * volume * 0.5;
                  c4 = c3[i3 := elem c3 i3 + push];
                  c5 = c4[i3 + 1 := elem c4 (i3 + 1) + push];
                  c6 = c5[i3 + 2 := elem c5 (i3 + 2) + push]
              in (c6, k + 1))
           else (c3, k))"

definition particles ::
  "jsnum \<Rightarrow> jsnum \<Rightarrow> rng \<Rightarrow> ('u, 'a) scene_scheme \<Rightarrow> ('u, 'a) scene_scheme" where
  "particles lerpSpeed volume R s =
     (case fold (particle (targetPositionsRef s) lerpSpeed volume R) [0..<PARTICLE_COUNT]
             (currentPos s, drawn s) of
        (c, k) \<Rightarrow> s\<lparr>currentPos := c, drawn := k\<rparr>)"

definition update_1 :: "VisualConfig \<Rightarrow> jsnum \<Rightarrow> jsnum \<Rightarrow> rng \<Rightarrow> uniforms scene \<Rightarrow> uniforms scene" where
  "update_1 config time volume R s =
     (case pointsRef s of
        None \<Rightarrow> s
      | Some (rotation_y, rotation_z) \<Rightarrow>
          (let baseLerp = 0.02;
               beatLerp = volume * 0.05;
               lerpSpeed = baseLerp + beatLerp;
               s1 = s\<lparr>pointsRef :=
                        Some (rotation_y + ((0.001 * speed config) + (volume * 0.01)),
                              Math_sin (time * 0.3) * 0.1)\<rparr>
           in particles lerpSpeed volume R s1))"

text \<open>
  In the second scene the loop runs only while the grip is below 0.5; the grip is read
  as \<open>materialRef.current?.uniforms.uHandGrip.value || 0\<close>, so a missing material, a
  zero and \<open>NaN\<close> all read as 0.
\<close>

definition handGrip_of :: "uniforms2 scene \<Rightarrow> jsnum" where
  "handGrip_of s =
     (case materialRef s of
        None \<Rightarrow> 0
      | Some u \<Rightarrow> (if uHandGrip u = NaN \<or> uHandGrip u = Fin 0 then 0 else uHandGrip u))"

definition update_2 :: "jsnum \<Rightarrow> rng \<Rightarrow> uniforms2 scene \<Rightarrow> uniforms2 scene" where
  "update_2 volume R s =
     (case pointsRef s of
        None \<Rightarrow> s
      | Some rotation \<Rightarrow>
          (let lerpSpeed = 0.03 + (volume * 0.08);
               handGrip = handGrip_of s
           in if handGrip < 0.5 then particles lerpSpeed volume R s else s))"

subsection \<open>The callbacks\<close>

definition useFrame_1 ::
  "VisualConfig \<Rightarrow> jsnum \<Rightarrow> AudioData \<Rightarrow> rng \<Rightarrow> uniforms scene \<Rightarrow> uniforms scene" where
  "useFrame_1 config time audio R s =
     (let volume = volume_of audio;
          treble = treble_of audio;
          s1 = morph_1 config time volume R s;
          s2 = uniforms_1 config time volume treble s1
      in update_1 config time volume R s2)"

definition useFrame_2 ::
  "VisualConfig \<Rightarrow> GestureState \<Rightarrow> jsnum \<Rightarrow> AudioData \<Rightarrow> rng \<Rightarrow> uniforms2 scene \<Rightarrow> uniforms2 scene" where
  "useFrame_2 config gesture time audio R s =
     (let volume = volume_of audio;
          treble = treble_of audio;
          s1 = morph_2 config time volume R s;
          s2 = uniforms_2 config gesture time volume treble s1
      in update_2 volume R s2)"

section \<open>The effect of a new configuration\<close>

text \<open>
  The effect that initialises the target when the configuration changes. React runs it
  after the first render and after every render in which \<open>config.shape\<close> or
  \<open>config.chaos\<close> differs from the render before.
\<close>

definition useEffect ::
  "(VisualShape \<Rightarrow> nat \<Rightarrow> jsnum \<Rightarrow> rng \<Rightarrow> nat \<Rightarrow> jsnum list \<times> nat) \<Rightarrow>
   VisualConfig \<Rightarrow> rng \<Rightarrow> ('u, 'a) scene_scheme \<Rightarrow> ('u, 'a) scene_scheme" where
  "useEffect generate config R s =
     (case generate (shape config) PARTICLE_COUNT (chaos config) R (drawn s) of
        (targets, k) \<Rightarrow>
          s\<lparr>targetPositionsRef := Float32Array_set (targetPositionsRef s) targets,
            currentShapeRef := shape config,
            lastShapeChangeTime := 0,
            drawn := k\<rparr>)"

definition setConfig ::
  "(VisualShape \<Rightarrow> nat \<Rightarrow> jsnum \<Rightarrow> rng \<Rightarrow> nat \<Rightarrow> jsnum list \<times> nat) \<Rightarrow>
   VisualConfig \<Rightarrow> VisualConfig \<Rightarrow> rng \<Rightarrow> ('u, 'a) scene_scheme \<Rightarrow> ('u, 'a) scene_scheme" where
  "setConfig generate old new R s =
     (if shape new = shape old \<and> chaos new = chaos old then s else useEffect generate new R s)"

text \<open>
  The scene as the component creates it: both arrays zeroed, nothing mounted yet. Then
  the material (with the initial uniforms of its constructor) and the points object are
  mounted, and the effect runs for the first time.
\<close>

definition mount :: "VisualConfig \<Rightarrow> 'u scene" where
  "mount config =
     \<lparr>currentPos = replicate (PARTICLE_COUNT * 3) 0,
      targetPositionsRef = replicate (PARTICLE_COUNT * 3) 0,
      currentShapeRef = shape config,
      lastShapeChangeTime = 0,
      materialRef = None,
      pointsRef = None,
      drawn = 0\<rparr>"

definition StarMaterial_1 :: uniforms where
  "StarMaterial_1 = \<lparr>uTime = 0, uBeat = 0, uTreble = 0, uShapeMode = 0.0\<rparr>"

definition StarMaterial_2 :: uniforms2 where
  "StarMaterial_2 =
     \<lparr>uTime = 0, uBeat = 0, uTreble = 0, uShapeMode = 0.0,
      uWarp = 0.0, uShrink = 1.0, uHandGrip = 0.0,
      uRightHandPos = \<lparr>vx = 0, vy = 0, vz = 0\<rparr>,
      uRightHandActive = 0.0\<rparr>"

definition start_1 :: "VisualConfig \<Rightarrow> rng \<Rightarrow> uniforms scene" where
  "start_1 config R =
     useEffect generate_1 config R
       ((mount config)\<lparr>materialRef := Some StarMaterial_1, pointsRef := Some (0, 0)\<rparr>)"

definition start_2 :: "VisualConfig \<Rightarrow> rng \<Rightarrow> uniforms2 scene" where
  "start_2 config R =
     useEffect generate_2 config R
       ((mount config)\<lparr>materialRef := Some StarMaterial_2, pointsRef := Some (0, 0)\<rparr>)"

section \<open>Concrete inputs\<close>

text \<open>
  A silent audio frame of 256 bins (the analyser's \<open>fftSize\<close> is 512), a frame at
  full volume, and a gesture state with no hand tracked.
\<close>

definition silence :: AudioData where
  "silence = \<lparr>frequencyData = replicate 256 0, averageFrequency = 0\<rparr>"

definition loudest :: AudioData where
  "loudest = \<lparr>frequencyData = replicate 256 255, averageFrequency = 255\<rparr>"

text \<open>A quiet frame: every bin, and so the average, at 51, a fifth of the maximum.\<close>

definition quiet :: AudioData where
  "quiet = \<lparr>frequencyData = replicate 256 51, averageFrequency = 51\<rparr>"

text \<open>
  A frame of 90 bins in which only bin 62 is set, to its maximum; the average of its
  bins is \<open>255 / 90\<close>.
\<close>

definition ninety_bins :: AudioData where
  "ninety_bins = \<lparr>frequencyData = (replicate 90 0)[62 := 255], averageFrequency = Fin (17 / 6)\<rparr>"

definition no_hand :: hand where
  "no_hand = \<lparr>active = False, isFist = False, strength = 0, hand_x = 0, hand_y = 0\<rparr>"

definition no_hands :: GestureState where
  "no_hands = \<lparr>leftHand = no_hand, rightHand = no_hand\<rparr>"

text \<open>The random source whose every draw is 0.\<close>

definition zeros :: rng where
  "zeros = (\<lambda>k. 0)"

section \<open>Notions the properties are stated with\<close>

text \<open>
  The Euclidean distance between particle \<open>i\<close> of a buffer and the same particle of
  the target, computed with the operations of the language.
\<close>

definition distance_to_target :: "jsnum list \<Rightarrow> jsnum list \<Rightarrow> nat \<Rightarrow> jsnum" where
  "distance_to_target current target i =
     (let dx = elem target (3 * i) - elem current (3 * i);
          dy = elem target (3 * i + 1) - elem current (3 * i + 1);
          dz = elem target (3 * i + 2) - elem current (3 * i + 2)
      in Math_sqrt (dx * dx + dy * dy + dz * dz))"

text \<open>The smoothed grip a scene holds: the uniform \<open>uHandGrip\<close> of its material.\<close>

definition grip_of :: "uniforms2 scene \<Rightarrow> jsnum option" where
  "grip_of s = map_option uHandGrip (materialRef s)"

fun Math_abs :: "jsnum \<Rightarrow> jsnum" where
  "Math_abs (Fin a) = Fin \<bar>a\<bar>"
| "Math_abs (Inf s) = Inf True"
| "Math_abs NaN = NaN"

text \<open>
  One coordinate after the interpolation, and after the push that follows it when the
  volume is above 0.8; the cursor of the random source when particle \<open>i\<close> is reached.
\<close>

definition moved :: "jsnum \<Rightarrow> jsnum \<Rightarrow> jsnum \<Rightarrow> jsnum" where
  "moved lerpSpeed c t = c + (t - c) * lerpSpeed"

definition pushed :: "jsnum \<Rightarrow> rng \<Rightarrow> nat \<Rightarrow> jsnum \<Rightarrow> jsnum" where
  "pushed volume R k c =
     (if 0.8 < volume then c + (Math_random R k - 0.5) * volume * 0.5 else c)"

definition cursor_at :: "jsnum \<Rightarrow> nat \<Rightarrow> nat \<Rightarrow> nat" where
  "cursor_at volume k i = (if 0.8 < volume then k + i else k)"

text \<open>Gestures: an open left hand at full strength, and a fist at full strength.\<close>

definition open_hand :: GestureState where
  "open_hand =
     \<lparr>leftHand = \<lparr>active = True, isFist = False, strength = 1, hand_x = 0, hand_y = 0\<rparr>,
      rightHand = no_hand\<rparr>"

definition fist :: GestureState where
  "fist =
     \<lparr>leftHand = \<lparr>active = True, isFist = True, strength = 1, hand_x = 0, hand_y = 0\<rparr>,
      rightHand = no_hand\<rparr>"

text \<open>
  The value of a finite number, and the distance above as a real number, for buffers
  of finite numbers.
\<close>

fun val :: "jsnum \<Rightarrow> real" where
  "val (Fin a) = a"
| "val (Inf s) = 0"
| "val NaN = 0"

definition rdist :: "jsnum list \<Rightarrow> jsnum list \<Rightarrow> nat \<Rightarrow> real" where
  "rdist current target i =
     sqrt ((val (target ! (3 * i)) - val (current ! (3 * i)))\<^sup>2
         + (val (target ! (3 * i + 1)) - val (current ! (3 * i + 1)))\<^sup>2
         + (val (target ! (3 * i + 2)) - val (current ! (3 * i + 2)))\<^sup>2)"

text \<open>
  A mounted scene at rest: every current coordinate 0, every target coordinate 1.
\<close>

definition at_rest_1 :: "uniforms scene" where
  "at_rest_1 =
     (mount DEFAULT_VISUAL_CONFIG)
       \<lparr>targetPositionsRef := replicate (PARTICLE_COUNT * 3) 1,
        materialRef := Some StarMaterial_1,
        pointsRef := Some (0, 0)\<rparr>"

definition at_rest_2 :: "uniforms2 scene" where
  "at_rest_2 =
     (mount DEFAULT_VISUAL_CONFIG)
       \<lparr>targetPositionsRef := replicate (PARTICLE_COUNT * 3) 1,
        materialRef := Some StarMaterial_2,
        pointsRef := Some (0, 0)\<rparr>"

text \<open>
  A run of either scene. It starts with the default configuration (shape SPHERE); the
  frame at 25 s, silent, is past the forced-switch time and changes the shape; then a
  configuration with the shape DNA_HELIX is assigned.
\<close>

definition helix :: VisualConfig where
  "helix = DEFAULT_VISUAL_CONFIG\<lparr>shape := DNA_HELIX\<rparr>"

definition switched_1 :: "uniforms scene" where
  "switched_1 =
     useFrame_1 DEFAULT_VISUAL_CONFIG 25 silence zeros (start_1 DEFAULT_VISUAL_CONFIG zeros)"

definition reassigned_1 :: "uniforms scene" where
  "reassigned_1 = setConfig generate_1 DEFAULT_VISUAL_CONFIG helix zeros switched_1"

definition switched_2 :: "uniforms2 scene" where
  "switched_2 =
     useFrame_2 DEFAULT_VISUAL_CONFIG no_hands 25 silence zeros
       (start_2 DEFAULT_VISUAL_CONFIG zeros)"

definition reassigned_2 :: "uniforms2 scene" where
  "reassigned_2 = setConfig generate_2 DEFAULT_VISUAL_CONFIG helix zeros switched_2"

text \<open>The scene at rest with the smoothed grip already at 1, and at -1.\<close>

definition gripped_2 :: "uniforms2 scene" where
  "gripped_2 = at_rest_2\<lparr>materialRef := Some (StarMaterial_2\<lparr>uHandGrip := 1\<rparr>)\<rparr>"

definition spread_2 :: "uniforms2 scene" where
  "spread_2 = at_rest_2\<lparr>materialRef := Some (StarMaterial_2\<lparr>uHandGrip := - 1\<rparr>)\<rparr>"

text \<open>A vector, and the state of an attractor, all of whose components are finite.\<close>

definition vec_finite :: "vec3 \<Rightarrow> bool" where
  "vec_finite d = (is_finite (vx d) \<and> is_finite (vy d) \<and> is_finite (vz d))"

fun att_finite :: "attractor \<Rightarrow> bool" where
  "att_finite (x, y, z) = (is_finite x \<and> is_finite y \<and> is_finite z)"

text \<open>Coordinate \<open>j\<close> (0, 1 or 2) of a vector, as the buffer lays them out.\<close>

definition coord :: "vec3 \<Rightarrow> nat \<Rightarrow> jsnum" where
  "coord d j = (if j = 0 then vx d else if j = 1 then vy d else vz d)"

definition origin :: vec3 where
  "origin = \<lparr>vx = 0, vy = 0, vz = 0\<rparr>"

section \<open>Working with finite numbers\<close>

lemma Fin_plus [simp]: "Fin a + Fin b = Fin (a + b)"
  by (simp add: plus_jsnum_def)

lemma Fin_minus [simp]: "Fin a - Fin b = Fin (a - b)"
  by (simp add: minus_jsnum_def)

lemma Fin_uminus [simp]: "- Fin a = Fin (- a)"
  by (simp add: uminus_jsnum_def)

lemma Fin_times [simp]: "Fin a * Fin b = Fin (a * b)"
  by (simp add: times_jsnum_def)

lemma Fin_divide [simp]:
  "Fin a / Fin b = (if b = 0 then (if a = 0 then NaN else Inf (0 < a)) else Fin (a / b))"
  by (simp add: divide_jsnum_def)

lemma Fin_less [simp]: "Fin a < Fin b \<longleftrightarrow> a < b"
  by (simp add: less_jsnum_def)

lemma Fin_less_eq [simp]: "Fin a \<le> Fin b \<longleftrightarrow> a \<le> b"
  by (simp add: less_eq_jsnum_def)

lemma zero_Fin [simp]: "(0::jsnum) = Fin 0"
  by (simp add: zero_jsnum_def)

lemma one_Fin [simp]: "(1::jsnum) = Fin 1"
  by (simp add: one_jsnum_def)

lemma numeral_Fin [simp]: "(numeral k :: jsnum) = Fin (numeral k)"
proof (induction k)
  case One
  show ?case by (simp add: numeral.simps)
next
  case (Bit0 k)
  have "(numeral (Num.Bit0 k) :: jsnum) = Fin (numeral k) + Fin (numeral k)"
    by (simp only: numeral.simps Bit0)
  also have "\<dots> = Fin (numeral (Num.Bit0 k))"
    by (simp only: Fin_plus numeral.simps)
  finally show ?case .
next
  case (Bit1 k)
  have "(numeral (Num.Bit1 k) :: jsnum) = Fin (numeral k) + Fin (numeral k) + Fin 1"
    by (simp only: numeral.simps Bit1 one_Fin)
  also have "\<dots> = Fin (numeral (Num.Bit1 k))"
    by (simp only: Fin_plus numeral.simps)
  finally show ?case .
qed

lemma NaN_less [simp]: "\<not> NaN < b" "\<not> a < NaN"
  by (cases b; simp add: less_jsnum_def) (cases a; simp add: less_jsnum_def)

lemma num_Fin [simp]: "num n = Fin (real n)"
  by (simp add: num_def)

lemma Math_PI_Fin [simp]: "Math_PI = Fin pi"
  by (simp add: Math_PI_def)

lemma Fin_power [simp]: "Fin a ^ n = Fin (a ^ n)"
  by (induction n) simp_all

lemma js_less_asym: "(a::jsnum) < b \<Longrightarrow> \<not> b < a"
  unfolding less_jsnum_def by (cases a; cases b) auto

lemma js_less_Fin_trans: "Fin a < x \<Longrightarrow> b \<le> a \<Longrightarrow> Fin b < x"
  unfolding less_jsnum_def by (cases x) auto

lemma js_add_zero: "(a::jsnum) + Fin 0 = a"
  unfolding plus_jsnum_def by (cases a) simp_all

lemma js_less_eq_not_less: "(a::jsnum) \<le> b \<Longrightarrow> \<not> b < a"
  unfolding less_jsnum_def less_eq_jsnum_def by (cases a; cases b) auto

lemma is_finite_val: "is_finite x \<Longrightarrow> x = Fin (val x)"
  by (cases x) simp_all

lemma finite_nth:
  assumes "list_all is_finite xs" "j < length xs"
  shows "xs ! j = Fin (val (xs ! j))"
  using assms by (simp add: list_all_length is_finite_val)

section \<open>Properties of the scene\<close>

subsection \<open>The concrete scenes and inputs\<close>

lemma start_1_simps [simp]:
  "lastShapeChangeTime (start_1 c R) = 0"
  "currentShapeRef (start_1 c R) = shape c"
  "currentPos (start_1 c R) = replicate (PARTICLE_COUNT * 3) 0"
  "materialRef (start_1 c R) = Some StarMaterial_1"
  "pointsRef (start_1 c R) = Some (0, 0)"
  by (simp_all add: start_1_def useEffect_def mount_def split: prod.splits)

lemma start_2_simps [simp]:
  "lastShapeChangeTime (start_2 c R) = 0"
  "currentShapeRef (start_2 c R) = shape c"
  "currentPos (start_2 c R) = replicate (PARTICLE_COUNT * 3) 0"
  "materialRef (start_2 c R) = Some StarMaterial_2"
  "pointsRef (start_2 c R) = Some (0, 0)"
  by (simp_all add: start_2_def useEffect_def mount_def split: prod.splits)

lemma volume_silence [simp]: "volume_of silence = Fin 0"
  by (simp add: volume_of_def silence_def)

lemma volume_loudest [simp]: "volume_of loudest = Fin 1"
  by (simp add: volume_of_def loudest_def)

lemma at_rest_simps [simp]:
  "currentPos at_rest_1 = replicate (3 * PARTICLE_COUNT) 0"
  "targetPositionsRef at_rest_1 = replicate (3 * PARTICLE_COUNT) 1"
  "pointsRef at_rest_1 = Some (0, 0)"
  "materialRef at_rest_1 = Some StarMaterial_1"
  "lastShapeChangeTime at_rest_1 = 0"
  "drawn at_rest_1 = 0"
  "currentPos at_rest_2 = replicate (3 * PARTICLE_COUNT) 0"
  "targetPositionsRef at_rest_2 = replicate (3 * PARTICLE_COUNT) 1"
  "pointsRef at_rest_2 = Some (0, 0)"
  "materialRef at_rest_2 = Some StarMaterial_2"
  "lastShapeChangeTime at_rest_2 = 0"
  "drawn at_rest_2 = 0"
  by (simp_all add: at_rest_1_def at_rest_2_def mount_def mult.commute)

lemma PARTICLE_COUNT_pos [simp]: "0 < PARTICLE_COUNT"
  by (simp add: PARTICLE_COUNT_def)

lemma finite_replicate [simp]: "list_all is_finite (replicate n (Fin a))"
  by (simp add: list_all_length)

subsection \<open>What each part of the frame callback writes\<close>

lemma particles_frame:
  "targetPositionsRef (particles l v R s) = targetPositionsRef s"
  "currentShapeRef (particles l v R s) = currentShapeRef s"
  "lastShapeChangeTime (particles l v R s) = lastShapeChangeTime s"
  "materialRef (particles l v R s) = materialRef s"
  "pointsRef (particles l v R s) = pointsRef s"
  by (simp_all add: particles_def split: prod.splits)

lemma update_1_frame:
  "targetPositionsRef (update_1 c t v R s) = targetPositionsRef s"
  "currentShapeRef (update_1 c t v R s) = currentShapeRef s"
  "lastShapeChangeTime (update_1 c t v R s) = lastShapeChangeTime s"
  "materialRef (update_1 c t v R s) = materialRef s"
  by (simp_all add: update_1_def particles_frame Let_def split: option.splits)

lemma update_2_frame:
  "targetPositionsRef (update_2 v R s) = targetPositionsRef s"
  "currentShapeRef (update_2 v R s) = currentShapeRef s"
  "lastShapeChangeTime (update_2 v R s) = lastShapeChangeTime s"
  "materialRef (update_2 v R s) = materialRef s"
  "pointsRef (update_2 v R s) = pointsRef s"
  by (simp_all add: update_2_def particles_frame Let_def split: option.splits)

lemma uniforms_1_frame:
  "currentPos (uniforms_1 c t v tr s) = currentPos s"
  "targetPositionsRef (uniforms_1 c t v tr s) = targetPositionsRef s"
  "currentShapeRef (uniforms_1 c t v tr s) = currentShapeRef s"
  "lastShapeChangeTime (uniforms_1 c t v tr s) = lastShapeChangeTime s"
  "pointsRef (uniforms_1 c t v tr s) = pointsRef s"
  "drawn (uniforms_1 c t v tr s) = drawn s"
  by (simp_all add: uniforms_1_def split: option.splits)

lemma uniforms_2_frame:
  "currentPos (uniforms_2 c g t v tr s) = currentPos s"
  "targetPositionsRef (uniforms_2 c g t v tr s) = targetPositionsRef s"
  "currentShapeRef (uniforms_2 c g t v tr s) = currentShapeRef s"
  "lastShapeChangeTime (uniforms_2 c g t v tr s) = lastShapeChangeTime s"
  "pointsRef (uniforms_2 c g t v tr s) = pointsRef s"
  "drawn (uniforms_2 c g t v tr s) = drawn s"
  by (simp_all add: uniforms_2_def Let_def split: option.splits)

lemma transition_frame:
  "currentPos (transition shapes gen c t v R s) = currentPos s"
  "materialRef (transition shapes gen c t v R s) = materialRef s"
  "pointsRef (transition shapes gen c t v R s) = pointsRef s"
  by (simp_all add: transition_def Let_def split: prod.splits)

lemma morph_1_frame:
  "currentPos (morph_1 c t v R s) = currentPos s"
  "materialRef (morph_1 c t v R s) = materialRef s"
  "pointsRef (morph_1 c t v R s) = pointsRef s"
  by (simp_all add: morph_1_def transition_frame Let_def)

lemma morph_2_frame:
  "currentPos (morph_2 c t v R s) = currentPos s"
  "materialRef (morph_2 c t v R s) = materialRef s"
  "pointsRef (morph_2 c t v R s) = pointsRef s"
  by (simp_all add: morph_2_def transition_frame Let_def)

lemma useEffect_frame:
  "currentPos (useEffect gen c R s) = currentPos s"
  "materialRef (useEffect gen c R s) = materialRef s"
  "pointsRef (useEffect gen c R s) = pointsRef s"
  by (simp_all add: useEffect_def split: prod.splits)

subsection \<open>The gate of the switching step\<close>

lemma morph_1_idle:
  assumes "v < 0.6" "t - lastShapeChangeTime s < 20.0"
  shows "morph_1 c t v R s = s"
proof -
  have "\<not> 0.6 < v" using assms(1) by (rule js_less_asym)
  moreover have "\<not> 20.0 < t - lastShapeChangeTime s" using assms(2) by (rule js_less_asym)
  ultimately show ?thesis by (simp add: morph_1_def Let_def)
qed

lemma morph_2_idle:
  assumes "v < 0.5" "t - lastShapeChangeTime s < 15.0"
  shows "morph_2 c t v R s = s"
proof -
  have "\<not> 0.5 < v" using assms(1) by (rule js_less_asym)
  moreover have "\<not> 15.0 < t - lastShapeChangeTime s" using assms(2) by (rule js_less_asym)
  ultimately show ?thesis by (simp add: morph_2_def Let_def)
qed

text \<open>
  So, measured from the time the scene has stored, the gate is closed below the
  thresholds: a frame leaves the current shape and the target buffer as they are.
\<close>

lemma gate_closed_by_stored_time:
  "volume_of audio < 0.6 \<Longrightarrow> time - lastShapeChangeTime s1 < 20.0 \<Longrightarrow>
     currentShapeRef (useFrame_1 config time audio R s1) = currentShapeRef s1 \<and>
     targetPositionsRef (useFrame_1 config time audio R s1) = targetPositionsRef s1"
  "volume_of audio < 0.5 \<Longrightarrow> time - lastShapeChangeTime s2 < 15.0 \<Longrightarrow>
     currentShapeRef (useFrame_2 config gesture time audio R s2) = currentShapeRef s2 \<and>
     targetPositionsRef (useFrame_2 config gesture time audio R s2) = targetPositionsRef s2"
  by (simp_all add: useFrame_1_def useFrame_2_def Let_def morph_1_idle morph_2_idle
      update_1_frame update_2_frame uniforms_1_frame uniforms_2_frame)

subsection \<open>The forced switch\<close>


lemma shape_at_pick:
  assumes "0 \<le> r" "r < 1" "xs \<noteq> []"
  shows "shape_at xs (Math_floor (Fin r * num (length xs))) \<in> set xs"
proof -
  let ?n = "length xs"
  have n: "0 < real ?n" using assms(3) by simp
  have lo: "0 \<le> r * real ?n" using assms(1) by simp
  have "r * real ?n < real ?n" using assms(2) n by simp
  then have "\<lfloor>r * real ?n\<rfloor> < int ?n" by (simp add: floor_less_iff)
  moreover have "0 \<le> \<lfloor>r * real ?n\<rfloor>" using lo by simp
  ultimately have "nat \<lfloor>r * real ?n\<rfloor> < ?n" by linarith
  then show ?thesis using lo by simp
qed

lemma candidates_1: "filter (\<lambda>x. x \<noteq> c) allShapes_1 \<noteq> []"
  by (cases "c = SPHERE") (simp_all add: allShapes_1_def)

lemma candidates_2: "filter (\<lambda>x. x \<noteq> c) allShapes_2 \<noteq> []"
  by (cases "c = SPHERE") (simp_all add: allShapes_2_def)

lemma transition_simps:
  "lastShapeChangeTime (transition shapes gen c t v R s) = t"
  "currentShapeRef (transition shapes gen c t v R s) =
     shape_at (filter (\<lambda>x. x \<noteq> currentShapeRef s) shapes)
       (Math_floor (Math_random R (drawn s) * num (length (filter (\<lambda>x. x \<noteq> currentShapeRef s) shapes))))"
  "targetPositionsRef (transition shapes gen c t v R s) =
     Float32Array_set (targetPositionsRef s)
       (fst (gen (currentShapeRef (transition shapes gen c t v R s)) PARTICLE_COUNT
          (Math_min 1 (chaos c + (v * 0.2))) R (drawn s + 1)))"
  by (simp_all add: transition_def Let_def split: prod.splits)

lemma transition_other:
  assumes "draws_ok R" "filter (\<lambda>x. x \<noteq> currentShapeRef s) shapes \<noteq> []"
  shows "currentShapeRef (transition shapes gen c t v R s) \<noteq> currentShapeRef s"
    and "currentShapeRef (transition shapes gen c t v R s) \<in> set shapes"
proof -
  let ?cs = "filter (\<lambda>x. x \<noteq> currentShapeRef s) shapes"
  have "0 \<le> R (drawn s)" "R (drawn s) < 1" using assms(1) by (simp_all add: draws_ok_def)
  then have "shape_at ?cs (Math_floor (Fin (R (drawn s)) * num (length ?cs))) \<in> set ?cs"
    using assms(2) by (rule shape_at_pick)
  then have "currentShapeRef (transition shapes gen c t v R s) \<in> set ?cs"
    by (simp only: transition_simps Math_random_def)
  then show "currentShapeRef (transition shapes gen c t v R s) \<noteq> currentShapeRef s"
    and "currentShapeRef (transition shapes gen c t v R s) \<in> set shapes"
    by simp_all
qed

lemma morph_1_forced:
  assumes "20.0 < t - lastShapeChangeTime s"
  shows "morph_1 c t v R s = transition allShapes_1 generate_1 c t v R s"
proof -
  have "Fin 20 < t - lastShapeChangeTime s" using assms by simp
  moreover from this have "Fin 8 < t - lastShapeChangeTime s"
    by (rule js_less_Fin_trans) simp
  ultimately show ?thesis by (simp add: morph_1_def Let_def)
qed

lemma morph_2_forced:
  assumes "15.0 < t - lastShapeChangeTime s"
  shows "morph_2 c t v R s = transition allShapes_2 generate_2 c t v R s"
proof -
  have "Fin 15 < t - lastShapeChangeTime s" using assms by simp
  moreover from this have "Fin 6 < t - lastShapeChangeTime s"
    by (rule js_less_Fin_trans) simp
  ultimately show ?thesis by (simp add: morph_2_def Let_def)
qed

lemma useFrame_1_morph:
  "currentShapeRef (useFrame_1 c t a R s) = currentShapeRef (morph_1 c t (volume_of a) R s)"
  "lastShapeChangeTime (useFrame_1 c t a R s) = lastShapeChangeTime (morph_1 c t (volume_of a) R s)"
  "targetPositionsRef (useFrame_1 c t a R s) = targetPositionsRef (morph_1 c t (volume_of a) R s)"
  by (simp_all add: useFrame_1_def Let_def update_1_frame uniforms_1_frame)

lemma useFrame_2_morph:
  "currentShapeRef (useFrame_2 c g t a R s) = currentShapeRef (morph_2 c t (volume_of a) R s)"
  "lastShapeChangeTime (useFrame_2 c g t a R s) = lastShapeChangeTime (morph_2 c t (volume_of a) R s)"
  "targetPositionsRef (useFrame_2 c g t a R s) = targetPositionsRef (morph_2 c t (volume_of a) R s)"
  by (simp_all add: useFrame_2_def Let_def update_2_frame uniforms_2_frame)

text \<open>
  Claim C2. When the time since the last change of shape exceeds the forced-switch
  time (20 s in the first scene, 15 s in the second) and the volume is 0, the frame
  callback fires a transition: the time of the last change becomes the frame's time,
  the target buffer is overwritten with the buffer generated for the new shape, and the
  new shape is a member of the enum different from the shape before the frame.
\<close>

theorem forced_switch_changes_shape:
  assumes "draws_ok R" and "volume_of audio = 0"
  shows "(20.0 < time - lastShapeChangeTime s1 \<longrightarrow>
            currentShapeRef (useFrame_1 config time audio R s1) \<noteq> currentShapeRef s1 \<and>
            currentShapeRef (useFrame_1 config time audio R s1) \<in> set allShapes_1 \<and>
            lastShapeChangeTime (useFrame_1 config time audio R s1) = time \<and>
            targetPositionsRef (useFrame_1 config time audio R s1) =
              Float32Array_set (targetPositionsRef s1)
                (getShapePositions_1 (currentShapeRef (useFrame_1 config time audio R s1))
                   PARTICLE_COUNT (Math_min 1 (chaos config)) R (drawn s1 + 1))) \<and>
         (15.0 < time - lastShapeChangeTime s2 \<longrightarrow>
            currentShapeRef (useFrame_2 config gesture time audio R s2) \<noteq> currentShapeRef s2 \<and>
            currentShapeRef (useFrame_2 config gesture time audio R s2) \<in> set allShapes_2 \<and>
            lastShapeChangeTime (useFrame_2 config gesture time audio R s2) = time \<and>
            targetPositionsRef (useFrame_2 config gesture time audio R s2) =
              Float32Array_set (targetPositionsRef s2)
                (getShapePositions_2 (currentShapeRef (useFrame_2 config gesture time audio R s2))
                   PARTICLE_COUNT (Math_min 1 (chaos config)) R (drawn s2 + 1)))"
proof -
  have v: "volume_of audio = Fin 0" using assms(2) by simp
  have c: "chaos config + Fin 0 * 0.2 = chaos config"
    by (simp add: js_add_zero)
  show ?thesis
  proof (intro conjI impI)
    assume h: "20.0 < time - lastShapeChangeTime s1"
    note m = morph_1_forced [OF h]
    show "currentShapeRef (useFrame_1 config time audio R s1) \<noteq> currentShapeRef s1"
      by (simp only: useFrame_1_morph m transition_other(1) [OF assms(1) candidates_1] simp_thms)
    show "currentShapeRef (useFrame_1 config time audio R s1) \<in> set allShapes_1"
      by (simp only: useFrame_1_morph m transition_other(2) [OF assms(1) candidates_1])
    show "lastShapeChangeTime (useFrame_1 config time audio R s1) = time"
      by (simp only: useFrame_1_morph m transition_simps)
    show "targetPositionsRef (useFrame_1 config time audio R s1) =
              Float32Array_set (targetPositionsRef s1)
                (getShapePositions_1 (currentShapeRef (useFrame_1 config time audio R s1))
                   PARTICLE_COUNT (Math_min 1 (chaos config)) R (drawn s1 + 1))"
      by (simp only: useFrame_1_morph m transition_simps(3) v c generate_1_def fst_conv)
  next
    assume h: "15.0 < time - lastShapeChangeTime s2"
    note m = morph_2_forced [OF h]
    show "currentShapeRef (useFrame_2 config gesture time audio R s2) \<noteq> currentShapeRef s2"
      by (simp only: useFrame_2_morph m transition_other(1) [OF assms(1) candidates_2] simp_thms)
    show "currentShapeRef (useFrame_2 config gesture time audio R s2) \<in> set allShapes_2"
      by (simp only: useFrame_2_morph m transition_other(2) [OF assms(1) candidates_2])
    show "lastShapeChangeTime (useFrame_2 config gesture time audio R s2) = time"
      by (simp only: useFrame_2_morph m transition_simps)
    show "targetPositionsRef (useFrame_2 config gesture time audio R s2) =
              Float32Array_set (targetPositionsRef s2)
                (getShapePositions_2 (currentShapeRef (useFrame_2 config gesture time audio R s2))
                   PARTICLE_COUNT (Math_min 1 (chaos config)) R (drawn s2 + 1))"
      by (simp only: useFrame_2_morph m transition_simps(3) v c generate_2_def fst_conv)
  qed
qed

theorem forced_switch_witness:
  "draws_ok zeros \<and> volume_of silence = 0 \<and>
   20.0 < 25 - lastShapeChangeTime (start_1 DEFAULT_VISUAL_CONFIG zeros) \<and>
   15.0 < 25 - lastShapeChangeTime (start_2 DEFAULT_VISUAL_CONFIG zeros) \<and>
   currentShapeRef (useFrame_1 DEFAULT_VISUAL_CONFIG 25 silence zeros
      (start_1 DEFAULT_VISUAL_CONFIG zeros)) \<noteq> SPHERE \<and>
   lastShapeChangeTime (useFrame_1 DEFAULT_VISUAL_CONFIG 25 silence zeros
      (start_1 DEFAULT_VISUAL_CONFIG zeros)) = 25 \<and>
   currentShapeRef (useFrame_2 DEFAULT_VISUAL_CONFIG no_hands 25 silence zeros
      (start_2 DEFAULT_VISUAL_CONFIG zeros)) \<noteq> SPHERE \<and>
   lastShapeChangeTime (useFrame_2 DEFAULT_VISUAL_CONFIG no_hands 25 silence zeros
      (start_2 DEFAULT_VISUAL_CONFIG zeros)) = 25"
proof -
  let ?s1 = "start_1 DEFAULT_VISUAL_CONFIG zeros"
  let ?s2 = "start_2 DEFAULT_VISUAL_CONFIG zeros"
  have d: "draws_ok zeros" by (simp add: draws_ok_def zeros_def)
  have v: "volume_of silence = 0" by simp
  have t: "20.0 < 25 - lastShapeChangeTime ?s1" "15.0 < 25 - lastShapeChangeTime ?s2"
    by simp_all
  have "shape DEFAULT_VISUAL_CONFIG = SPHERE"
    by (simp add: DEFAULT_VISUAL_CONFIG_def)
  with d t
    forced_switch_changes_shape [OF d v, of 25 ?s1 DEFAULT_VISUAL_CONFIG ?s2 no_hands]
  show ?thesis by simp
qed

subsection \<open>Which buffer each step writes\<close>

text \<open>
  Claim C5. A transition (in the switching step of either scene, or in the effect of a
  new configuration) never writes the current buffer; the particle update of either
  scene (the interpolation and, above a volume of 0.8, the random push) never writes
  the target buffer.
\<close>

theorem buffers_written_separately:
  "currentPos (transition shapes generate config time volume R s) = currentPos s \<and>
   currentPos (morph_1 config time volume R s1) = currentPos s1 \<and>
   currentPos (morph_2 config time volume R s2) = currentPos s2 \<and>
   currentPos (useEffect generate config R s) = currentPos s \<and>
   targetPositionsRef (particles lerpSpeed volume R s) = targetPositionsRef s \<and>
   targetPositionsRef (update_1 config time volume R s1) = targetPositionsRef s1 \<and>
   targetPositionsRef (update_2 volume R s2) = targetPositionsRef s2"
  by (simp add: transition_frame morph_1_frame morph_2_frame useEffect_frame
      particles_frame update_1_frame update_2_frame)

theorem buffers_written_separately_witness:
  "currentPos (morph_1 DEFAULT_VISUAL_CONFIG 25 (volume_of loudest) zeros
      (start_1 DEFAULT_VISUAL_CONFIG zeros)) = replicate (PARTICLE_COUNT * 3) 0 \<and>
   targetPositionsRef (update_1 DEFAULT_VISUAL_CONFIG 25 (volume_of loudest) zeros
      (start_1 DEFAULT_VISUAL_CONFIG zeros)) =
     targetPositionsRef (start_1 DEFAULT_VISUAL_CONFIG zeros)"
  using buffers_written_separately
    [where config = DEFAULT_VISUAL_CONFIG and time = 25 and volume = "volume_of loudest"
       and R = zeros and ?s1.0 = "start_1 DEFAULT_VISUAL_CONFIG zeros"
       and ?s2.0 = "start_2 DEFAULT_VISUAL_CONFIG zeros"
       and s = "start_1 DEFAULT_VISUAL_CONFIG zeros" and shapes = allShapes_1
       and generate = generate_1 and lerpSpeed = "0.07"]
  by simp

subsection \<open>The audio features\<close>

lemma trebleSum_fold:
  "fold (\<lambda>i trebleSum. trebleSum + Fin (unsigned (xs ! i))) js (Fin a) =
     Fin (a + (\<Sum>i\<leftarrow>js. (unsigned (xs ! i) :: real)))"
  by (induction js arbitrary: a) (simp_all add: add.assoc)

lemma trebleSum_of_Fin:
  "trebleSum_of xs = Fin (\<Sum>i\<leftarrow>[lowerBound_of xs..<length xs]. (unsigned (xs ! i) :: real))"
  by (simp add: trebleSum_of_def trebleSum_fold)

lemma byte_range:
  fixes w :: "8 word"
  shows "0 \<le> (unsigned w :: real)" and "(unsigned w :: real) \<le> 255"
proof -
  have eq: "(unsigned w :: real) = real (unat w)" by simp
  show "0 \<le> (unsigned w :: real)" unfolding eq by (rule of_nat_0_le_iff)
  have "unat w < 2 ^ 8" using unsigned_less [of w] by simp
  then have "unat w \<le> 255" by simp
  then have "real (unat w) \<le> real 255" by (rule of_nat_mono)
  then show "(unsigned w :: real) \<le> 255" unfolding eq by simp
qed

lemma byte_sum_bounds:
  fixes xs :: "8 word list"
  shows "0 \<le> (\<Sum>i\<leftarrow>js. (unsigned (xs ! i) :: real))"
    and "(\<Sum>i\<leftarrow>js. (unsigned (xs ! i) :: real)) \<le> 255 * real (length js)"
proof -
  show "0 \<le> (\<Sum>i\<leftarrow>js. (unsigned (xs ! i) :: real))"
  proof (induction js)
    case Nil
    show ?case by simp
  next
    case (Cons j js)
    from byte_range(1) [of "xs ! j"] Cons show ?case by simp
  qed
  show "(\<Sum>i\<leftarrow>js. (unsigned (xs ! i) :: real)) \<le> 255 * real (length js)"
  proof (induction js)
    case Nil
    show ?case by simp
  next
    case (Cons j js)
    from byte_range(2) [of "xs ! j"] Cons show ?case by (simp add: algebra_simps)
  qed
qed

text \<open>
  The bit length, and the rounding to 53 significant bits: the result is within half a
  unit of the last digit kept.
\<close>

declare bits.simps [simp del]

lemma bits_0 [simp]: "bits 0 = 0"
  by (simp add: bits.simps)

lemma bits_upper: "p < 2 ^ bits p"
proof (induction p rule: bits.induct)
  case (1 n)
  show ?case
  proof (cases "n = 0")
    case True
    then show ?thesis by simp
  next
    case False
    then have b: "bits n = Suc (bits (n div 2))" by (subst bits.simps) simp
    from 1 [OF False] have "n div 2 < 2 ^ bits (n div 2)" .
    then have "n < 2 * 2 ^ bits (n div 2)" by linarith
    then show ?thesis unfolding b by simp
  qed
qed

lemma bits_lower: "0 < p \<Longrightarrow> 2 ^ (bits p - 1) \<le> p"
proof (induction p rule: bits.induct)
  case (1 n)
  then have n: "n \<noteq> 0" by simp
  then have b: "bits n = Suc (bits (n div 2))" by (subst bits.simps) simp
  show ?case
  proof (cases "n div 2 = 0")
    case True
    then show ?thesis using n unfolding b by simp
  next
    case False
    then have "2 ^ (bits (n div 2) - 1) \<le> n div 2" using 1(1) [OF n] by simp
    moreover have "bits (n div 2) \<noteq> 0" using False by (subst bits.simps) simp
    then have "(2::nat) ^ bits (n div 2) = 2 * 2 ^ (bits (n div 2) - 1)"
      by (cases "bits (n div 2)") simp_all
    ultimately show ?thesis unfolding b by simp
  qed
qed

lemma bits_eq: "2 ^ k \<le> p \<Longrightarrow> p < 2 ^ Suc k \<Longrightarrow> bits p = Suc k"
proof -
  assume lo: "2 ^ k \<le> p" and hi: "p < 2 ^ Suc k"
  have pos: "0 < p" using lo by (metis less_le_trans zero_less_numeral zero_less_power)
  have "(2::nat) ^ k < 2 ^ bits p" using lo bits_upper [of p] by linarith
  then have 1: "k < bits p" by simp
  have "(2::nat) ^ (bits p - 1) < 2 ^ Suc k" using bits_lower [OF pos] hi by linarith
  then have "bits p - 1 < Suc k" by (rule power_less_imp_less_exp [rotated]) simp
  with 1 show ?thesis by linarith
qed

lemma round_53_upper: "round_53 p \<le> p + 2 ^ (bits p - 53)"
proof -
  let ?s = "bits p - 53"
  have "p div 2 ^ ?s * 2 ^ ?s \<le> p" by simp
  then have "(p div 2 ^ ?s + 1) * 2 ^ ?s \<le> p + 2 ^ ?s" by (simp add: algebra_simps)
  moreover have "p div 2 ^ ?s * 2 ^ ?s \<le> p + 2 ^ ?s" by (simp add: trans_le_add1)
  ultimately show ?thesis by (simp add: round_53_def Let_def)
qed

lemma round_53_nearest:
  "2 * round_53 p \<le> 2 * p + 2 ^ (bits p - 53) \<and> 2 * p \<le> 2 * round_53 p + 2 ^ (bits p - 53)"
proof -
  let ?s = "bits p - 53"
  define q where "q = p div 2 ^ ?s"
  define r where "r = p mod 2 ^ ?s"
  have p: "p = q * 2 ^ ?s + r" unfolding q_def r_def by (rule div_mult_mod_eq [symmetric])
  have r: "r < 2 ^ ?s" unfolding r_def by simp
  have e: "round_53 p =
      (if 2 ^ ?s < 2 * r then q + 1
       else if 2 * r = 2 ^ ?s then (if q mod 2 = 1 then q + 1 else q) else q) * 2 ^ ?s"
    unfolding round_53_def Let_def q_def r_def ..
  consider "2 ^ ?s < 2 * r" | "2 * r = 2 ^ ?s" | "2 * r < 2 ^ ?s" by linarith
  then show ?thesis
  proof cases
    case 1
    then have "round_53 p = (q + 1) * 2 ^ ?s" unfolding e by simp
    then show ?thesis using 1 r p by (simp add: algebra_simps)
  next
    case 2
    then have "round_53 p = q * 2 ^ ?s \<or> round_53 p = (q + 1) * 2 ^ ?s" unfolding e by simp
    then show ?thesis using 2 p by (auto simp: algebra_simps)
  next
    case 3
    then have "round_53 p = q * 2 ^ ?s" unfolding e by simp
    then show ?thesis using 3 p by (simp add: algebra_simps)
  qed
qed

lemma round_53_exact: "bits p \<le> 53 \<Longrightarrow> round_53 p = p"
  by (simp add: round_53_def Let_def)

lemma lowerBound_less:
  assumes "xs \<noteq> []"
  shows "lowerBound_of xs < length xs"
proof -
  let ?n = "length xs"
  let ?p = "?n * double_0_7"
  let ?s = "bits ?p - 53"
  have n: "0 < ?n" using assms by simp
  have m: "double_0_7 + 1 \<le> 2 ^ 52" by (simp add: double_0_7_def)
  have pos: "0 < ?p" using n by (simp add: double_0_7_def)
  have lt: "?p < ?n * 2 ^ 52" using n m by simp
  have "round_53 ?p < ?n * 2 ^ 52"
  proof (cases "bits ?p \<le> 53")
    case True
    then show ?thesis using lt by (simp only: round_53_exact)
  next
    case False
    then have "?s + 52 = bits ?p - 1" by simp
    then have "(2::nat) ^ (?s + 52) = 2 ^ (bits ?p - 1)" by (rule arg_cong)
    then have "(2::nat) ^ ?s * 2 ^ 52 = 2 ^ (bits ?p - 1)" by (simp only: power_add)
    then have "2 ^ ?s * 2 ^ 52 \<le> ?p" using bits_lower [OF pos] by (simp only:)
    then have "2 ^ ?s * 2 ^ 52 < ?n * 2 ^ 52" using lt by linarith
    then have "2 ^ ?s < ?n" by simp
    then have "?p + 2 ^ ?s < ?n * (double_0_7 + 1)" by (simp add: algebra_simps)
    also have "\<dots> \<le> ?n * 2 ^ 52" using m by (rule mult_le_mono2)
    finally show ?thesis using round_53_upper [of ?p] by linarith
  qed
  then show ?thesis unfolding lowerBound_of_def by (rule less_mult_imp_div_less)
qed

lemma lowerBound_90: "length xs = 90 \<Longrightarrow> lowerBound_of xs = 62"
proof -
  assume l: "length xs = 90"
  have b: "bits (90 * double_0_7) = 58"
    using bits_eq [of 57 "90 * double_0_7"] by (simp add: double_0_7_def)
  show ?thesis unfolding lowerBound_of_def l round_53_def Let_def b
    by (simp add: double_0_7_def)
qed

lemma lowerBound_10: "length xs = 10 \<Longrightarrow> lowerBound_of xs = 7"
proof -
  assume l: "length xs = 10"
  have b: "bits (10 * double_0_7) = 55"
    using bits_eq [of 54 "10 * double_0_7"] by (simp add: double_0_7_def)
  show ?thesis unfolding lowerBound_of_def l round_53_def Let_def b
    by (simp add: double_0_7_def)
qed

lemma treble_of_Fin:
  assumes "frequencyData audio \<noteq> []"
  shows "treble_of audio =
     Fin ((\<Sum>i\<leftarrow>[lowerBound_of (frequencyData audio)..<length (frequencyData audio)].
             (unsigned (frequencyData audio ! i) :: real))
          / (real (length (frequencyData audio)) - real (lowerBound_of (frequencyData audio)))
          / 255)"
  using lowerBound_less [OF assms]
  by (simp add: treble_of_def Let_def trebleSum_of_Fin)

lemma treble_in_range:
  assumes "frequencyData audio \<noteq> []"
  shows "\<exists>t. treble_of audio = Fin t \<and> 0 \<le> t \<and> t \<le> 1"
proof -
  let ?xs = "frequencyData audio"
  let ?lb = "lowerBound_of ?xs"
  let ?S = "\<Sum>i\<leftarrow>[?lb..<length ?xs]. (unsigned (?xs ! i) :: real)"
  let ?m = "real (length ?xs) - real ?lb"
  have lt: "?lb < length ?xs" using assms by (rule lowerBound_less)
  then have m: "0 < ?m" by simp
  have S0: "0 \<le> ?S" by (rule byte_sum_bounds)
  have "?S \<le> 255 * real (length [?lb..<length ?xs])" by (rule byte_sum_bounds)
  also have "\<dots> = 255 * ?m" using lt by (simp add: of_nat_diff)
  finally have S1: "?S \<le> 255 * ?m" .
  define q where "q = ?S / ?m"
  have q0: "0 \<le> q" unfolding q_def using S0 m by simp
  have q1: "q \<le> 255" unfolding q_def using S1 m by (simp add: pos_divide_le_eq)
  have "0 \<le> q / 255" using q0 by simp
  moreover have "q / 255 \<le> 1" using q1 by simp
  moreover have "treble_of audio = Fin (q / 255)"
    unfolding q_def by (rule treble_of_Fin [OF assms])
  ultimately show ?thesis by blast
qed

lemma treble_all_zero:
  assumes "frequencyData audio \<noteq> []" "list_all (\<lambda>b. b = 0) (frequencyData audio)"
  shows "treble_of audio = Fin 0"
proof -
  let ?xs = "frequencyData audio"
  have "\<forall>i < length ?xs. ?xs ! i = 0" using assms(2) by (simp add: list_all_length)
  then have "map (\<lambda>i. (unsigned (?xs ! i) :: real)) [lowerBound_of ?xs..<length ?xs] =
      map (\<lambda>i. 0) [lowerBound_of ?xs..<length ?xs]"
    by (intro map_cong) simp_all
  then have "(\<Sum>i\<leftarrow>[lowerBound_of ?xs..<length ?xs]. (unsigned (?xs ! i) :: real)) = 0"
    by (simp only: sum_list_0)
  then show ?thesis using treble_of_Fin [OF assms(1)] by simp
qed




subsection \<open>The particle loop\<close>

lemma particle_eq:
  assumes "3 * i + 2 < length cur" "length tgt = length cur"
  shows "particle tgt l v R i (cur, k) =
     (cur[3 * i := pushed v R k (moved l (cur ! (3 * i)) (tgt ! (3 * i))),
          3 * i + 1 := pushed v R k (moved l (cur ! (3 * i + 1)) (tgt ! (3 * i + 1))),
          3 * i + 2 := pushed v R k (moved l (cur ! (3 * i + 2)) (tgt ! (3 * i + 2)))],
      cursor_at v k 1)"
  using assms
  by (simp add: particle_def Let_def elem_def pushed_def moved_def cursor_at_def
      mult.commute list_update_swap)

lemma particle_loop:
  assumes "3 * n \<le> length cur" "length tgt = length cur"
  shows "\<exists>cur'. fold (particle tgt l v R) [0..<n] (cur, k) = (cur', cursor_at v k n) \<and>
           length cur' = length cur \<and>
           (\<forall>j < length cur. cur' ! j =
              (if j < 3 * n
               then pushed v R (cursor_at v k (j div 3)) (moved l (cur ! j) (tgt ! j))
               else cur ! j))"
  using assms(1)
proof (induction n)
  case 0
  show ?case by (simp add: cursor_at_def)
next
  case (Suc n)
  then have n: "3 * n \<le> length cur" and r: "3 * n + 2 < length cur" by simp_all
  from Suc.IH [OF n] obtain c where
    f: "fold (particle tgt l v R) [0..<n] (cur, k) = (c, cursor_at v k n)" and
    len: "length c = length cur" and
    nth: "\<forall>j < length cur. c ! j =
              (if j < 3 * n
               then pushed v R (cursor_at v k (j div 3)) (moved l (cur ! j) (tgt ! j))
               else cur ! j)"
    by blast
  let ?c' = "c[3 * n := pushed v R (cursor_at v k n) (moved l (c ! (3 * n)) (tgt ! (3 * n))),
          3 * n + 1 := pushed v R (cursor_at v k n) (moved l (c ! (3 * n + 1)) (tgt ! (3 * n + 1))),
          3 * n + 2 := pushed v R (cursor_at v k n) (moved l (c ! (3 * n + 2)) (tgt ! (3 * n + 2)))]"
  have step: "fold (particle tgt l v R) [0..<Suc n] (cur, k) = (?c', cursor_at v k (Suc n))"
    using particle_eq [of n c tgt l v R "cursor_at v k n"] r len assms(2) f
    by (simp add: cursor_at_def)
  have "?c' ! j =
      (if j < 3 * Suc n
       then pushed v R (cursor_at v k (j div 3)) (moved l (cur ! j) (tgt ! j))
       else cur ! j)" if j: "j < length cur" for j
  proof -
    have d: "(3 * n) div 3 = n" "(3 * n + 1) div 3 = n" "(3 * n + 2) div 3 = n" by simp_all
    consider "j = 3 * n" | "j = 3 * n + 1" | "j = 3 * n + 2" | "j < 3 * n" | "3 * n + 2 < j"
      by linarith
    then show ?thesis
    proof cases
      case 1
      then show ?thesis using r len nth d by simp
    next
      case 2
      then show ?thesis using r len nth d by simp
    next
      case 3
      then show ?thesis using r len nth d by simp
    next
      case 4
      then show ?thesis using j len nth by simp
    next
      case 5
      then show ?thesis using j len nth by simp
    qed
  qed
  then show ?case using step len by simp
qed

lemma particles_nth:
  assumes "length (currentPos s) = 3 * PARTICLE_COUNT"
    and "length (targetPositionsRef s) = 3 * PARTICLE_COUNT"
  shows "length (currentPos (particles l v R s)) = 3 * PARTICLE_COUNT"
    and "j < 3 * PARTICLE_COUNT \<Longrightarrow>
         currentPos (particles l v R s) ! j =
           pushed v R (cursor_at v (drawn s) (j div 3))
             (moved l (currentPos s ! j) (targetPositionsRef s ! j))"
    and "drawn (particles l v R s) = cursor_at v (drawn s) PARTICLE_COUNT"
proof -
  from particle_loop [of PARTICLE_COUNT "currentPos s" "targetPositionsRef s" l v R "drawn s"] assms
  obtain c where
    f: "fold (particle (targetPositionsRef s) l v R) [0..<PARTICLE_COUNT] (currentPos s, drawn s) =
          (c, cursor_at v (drawn s) PARTICLE_COUNT)" and
    len: "length c = 3 * PARTICLE_COUNT" and
    nth: "\<forall>j < 3 * PARTICLE_COUNT. c ! j =
              pushed v R (cursor_at v (drawn s) (j div 3))
                (moved l (currentPos s ! j) (targetPositionsRef s ! j))"
    by auto
  have c: "currentPos (particles l v R s) = c" by (simp add: particles_def f)
  show "length (currentPos (particles l v R s)) = 3 * PARTICLE_COUNT" using c len by simp
  show "drawn (particles l v R s) = cursor_at v (drawn s) PARTICLE_COUNT"
    by (simp add: particles_def f)
  show "currentPos (particles l v R s) ! j =
           pushed v R (cursor_at v (drawn s) (j div 3))
             (moved l (currentPos s ! j) (targetPositionsRef s ! j))"
    if "j < 3 * PARTICLE_COUNT"
    using c nth that by simp
qed


subsection \<open>Distances to the target\<close>

lemma distance_rdist:
  assumes "list_all is_finite cur" "list_all is_finite tgt"
    and "length cur = 3 * PARTICLE_COUNT" "length tgt = 3 * PARTICLE_COUNT"
    and "i < PARTICLE_COUNT"
  shows "distance_to_target cur tgt i = Fin (rdist cur tgt i)"
proof -
  have j: "3 * i < 3 * PARTICLE_COUNT" "3 * i + 1 < 3 * PARTICLE_COUNT"
    "3 * i + 2 < 3 * PARTICLE_COUNT"
    using assms(5) by simp_all
  obtain c0 c1 c2 where c: "cur ! (3 * i) = Fin c0" "cur ! (3 * i + 1) = Fin c1"
      "cur ! (3 * i + 2) = Fin c2"
    using j [folded assms(3), THEN finite_nth [OF assms(1)]] by blast
  obtain t0 t1 t2 where t: "tgt ! (3 * i) = Fin t0" "tgt ! (3 * i + 1) = Fin t1"
      "tgt ! (3 * i + 2) = Fin t2"
    using j [folded assms(4), THEN finite_nth [OF assms(2)]] by blast
  have nn: "\<not> (a * a + b * b + c * c < 0)" for a b c :: real
    by (simp add: not_less add_nonneg_nonneg)
  have "distance_to_target cur tgt i =
      Math_sqrt ((Fin t0 - Fin c0) * (Fin t0 - Fin c0) + (Fin t1 - Fin c1) * (Fin t1 - Fin c1)
                 + (Fin t2 - Fin c2) * (Fin t2 - Fin c2))"
    unfolding distance_to_target_def Let_def elem_def c [symmetric] t [symmetric]
    using j assms(3,4) by simp
  also have "\<dots> = Fin (sqrt ((t0 - c0)\<^sup>2 + (t1 - c1)\<^sup>2 + (t2 - c2)\<^sup>2))"
    by (simp add: nn power2_eq_square)
  also have "\<dots> = Fin (rdist cur tgt i)"
    unfolding rdist_def c t by simp
  finally show ?thesis .
qed


lemma particles_quiet:
  assumes len: "length (currentPos s) = 3 * PARTICLE_COUNT"
      "length (targetPositionsRef s) = 3 * PARTICLE_COUNT"
    and fin: "list_all is_finite (currentPos s)" "list_all is_finite (targetPositionsRef s)"
    and quiet: "\<not> 0.8 < v"
  shows "length (currentPos (particles (Fin l) v R s)) = 3 * PARTICLE_COUNT"
    and "list_all is_finite (currentPos (particles (Fin l) v R s))"
    and "i < PARTICLE_COUNT \<Longrightarrow>
         rdist (currentPos (particles (Fin l) v R s)) (targetPositionsRef s) i =
           \<bar>1 - l\<bar> * rdist (currentPos s) (targetPositionsRef s) i"
proof -
  let ?c = "currentPos s" and ?t = "targetPositionsRef s"
  let ?c' = "currentPos (particles (Fin l) v R s)"
  show l': "length ?c' = 3 * PARTICLE_COUNT" by (rule particles_nth(1) [OF len])
  have nth: "?c' ! j = Fin (val (?c ! j) + (val (?t ! j) - val (?c ! j)) * l)"
    if j: "j < 3 * PARTICLE_COUNT" for j
  proof -
    have "?c' ! j = moved (Fin l) (?c ! j) (?t ! j)"
      using particles_nth(2) [OF len j] quiet by (simp add: pushed_def)
    also have "\<dots> = moved (Fin l) (Fin (val (?c ! j))) (Fin (val (?t ! j)))"
      using finite_nth [OF fin(1), of j] finite_nth [OF fin(2), of j] j len by simp
    finally show ?thesis by (simp add: moved_def)
  qed
  show "list_all is_finite ?c'"
    unfolding list_all_length using nth l' by simp
  show "rdist ?c' ?t i = \<bar>1 - l\<bar> * rdist ?c ?t i" if i: "i < PARTICLE_COUNT"
  proof -
    have j: "3 * i < 3 * PARTICLE_COUNT" "3 * i + 1 < 3 * PARTICLE_COUNT"
      "3 * i + 2 < 3 * PARTICLE_COUNT"
      using i by simp_all
    have d: "t - (c + (t - c) * l) = (1 - l) * (t - c)" for t c :: real
      by (simp add: algebra_simps)
    have "rdist ?c' ?t i =
        sqrt (((1 - l) * (val (?t ! (3 * i)) - val (?c ! (3 * i))))\<^sup>2
            + ((1 - l) * (val (?t ! (3 * i + 1)) - val (?c ! (3 * i + 1))))\<^sup>2
            + ((1 - l) * (val (?t ! (3 * i + 2)) - val (?c ! (3 * i + 2))))\<^sup>2)"
      unfolding rdist_def nth [OF j(1)] nth [OF j(2)] nth [OF j(3)] val.simps d ..
    also have "\<dots> = sqrt ((1 - l)\<^sup>2 * ((val (?t ! (3 * i)) - val (?c ! (3 * i)))\<^sup>2
            + (val (?t ! (3 * i + 1)) - val (?c ! (3 * i + 1)))\<^sup>2
            + (val (?t ! (3 * i + 2)) - val (?c ! (3 * i + 2)))\<^sup>2))"
      by (simp only: power_mult_distrib distrib_left)
    also have "\<dots> = \<bar>1 - l\<bar> * rdist ?c ?t i"
      unfolding rdist_def by (simp add: real_sqrt_mult)
    finally show ?thesis .
  qed
qed


lemma rdist_nonneg: "0 \<le> rdist c t i"
  by (simp add: rdist_def)

lemma update_1_quiet:
  assumes len: "length (currentPos s) = 3 * PARTICLE_COUNT"
      "length (targetPositionsRef s) = 3 * PARTICLE_COUNT"
    and fin: "list_all is_finite (currentPos s)" "list_all is_finite (targetPositionsRef s)"
    and v: "0 \<le> v" "v \<le> 0.8"
  shows "length (currentPos (update_1 c t (Fin v) R s)) = 3 * PARTICLE_COUNT"
    and "list_all is_finite (currentPos (update_1 c t (Fin v) R s))"
    and "i < PARTICLE_COUNT \<Longrightarrow>
         rdist (currentPos (update_1 c t (Fin v) R s)) (targetPositionsRef s) i
           \<le> rdist (currentPos s) (targetPositionsRef s) i"
    and "i < PARTICLE_COUNT \<Longrightarrow> pointsRef s \<noteq> None \<Longrightarrow>
         rdist (currentPos (update_1 c t (Fin v) R s)) (targetPositionsRef s) i
           = (1 - (0.02 + v * 0.05)) * rdist (currentPos s) (targetPositionsRef s) i"
proof -
  have q: "\<not> 0.8 < Fin v" using v by simp
  have a: "\<bar>1 - (0.02 + v * 0.05)\<bar> = 1 - (0.02 + v * 0.05)" using v by simp
  have b: "1 - (0.02 + v * 0.05) \<le> 1" using v by simp
  show "length (currentPos (update_1 c t (Fin v) R s)) = 3 * PARTICLE_COUNT"
    using len by (cases "pointsRef s") (auto simp: update_1_def Let_def particles_nth(1))
  show "list_all is_finite (currentPos (update_1 c t (Fin v) R s))"
    using len fin q
    by (cases "pointsRef s") (auto simp: update_1_def Let_def particles_quiet(2))
  have e: "rdist (currentPos (update_1 c t (Fin v) R s)) (targetPositionsRef s) i
           = (1 - (0.02 + v * 0.05)) * rdist (currentPos s) (targetPositionsRef s) i"
    if "i < PARTICLE_COUNT" "pointsRef s = Some r" for r
  proof -
    obtain ry rz where r: "r = (ry, rz)" by (cases r)
    let ?s1 = "s\<lparr>pointsRef := Some (ry + (0.001 * speed c + Fin v * 0.01),
                                        Math_sin (t * 0.3) * 0.1)\<rparr>"
    have u: "update_1 c t (Fin v) R s = particles (Fin (0.02 + v * 0.05)) (Fin v) R ?s1"
      using that(2) r by (simp add: update_1_def Let_def)
    from particles_quiet(3) [of ?s1 "Fin v" i "0.02 + v * 0.05" R] len fin q that(1)
    show ?thesis unfolding u a by simp
  qed
  then show "i < PARTICLE_COUNT \<Longrightarrow> pointsRef s \<noteq> None \<Longrightarrow>
         rdist (currentPos (update_1 c t (Fin v) R s)) (targetPositionsRef s) i
           = (1 - (0.02 + v * 0.05)) * rdist (currentPos s) (targetPositionsRef s) i"
    by blast
  show "rdist (currentPos (update_1 c t (Fin v) R s)) (targetPositionsRef s) i
           \<le> rdist (currentPos s) (targetPositionsRef s) i" if i: "i < PARTICLE_COUNT"
  proof (cases "pointsRef s")
    case None
    then show ?thesis by (simp add: update_1_def)
  next
    case (Some r)
    from mult_right_mono [OF b rdist_nonneg [of "currentPos s" "targetPositionsRef s" i]]
    show ?thesis unfolding e [OF i Some] by simp
  qed
qed

lemma update_2_quiet:
  assumes len: "length (currentPos s) = 3 * PARTICLE_COUNT"
      "length (targetPositionsRef s) = 3 * PARTICLE_COUNT"
    and fin: "list_all is_finite (currentPos s)" "list_all is_finite (targetPositionsRef s)"
    and v: "0 \<le> v" "v \<le> 0.8"
  shows "length (currentPos (update_2 (Fin v) R s)) = 3 * PARTICLE_COUNT"
    and "list_all is_finite (currentPos (update_2 (Fin v) R s))"
    and "i < PARTICLE_COUNT \<Longrightarrow>
         rdist (currentPos (update_2 (Fin v) R s)) (targetPositionsRef s) i
           \<le> rdist (currentPos s) (targetPositionsRef s) i"
    and "i < PARTICLE_COUNT \<Longrightarrow> pointsRef s \<noteq> None \<Longrightarrow> handGrip_of s < 0.5 \<Longrightarrow>
         rdist (currentPos (update_2 (Fin v) R s)) (targetPositionsRef s) i
           = (1 - (0.03 + v * 0.08)) * rdist (currentPos s) (targetPositionsRef s) i"
proof -
  have q: "\<not> 0.8 < Fin v" using v by simp
  have a: "\<bar>1 - (0.03 + v * 0.08)\<bar> = 1 - (0.03 + v * 0.08)" using v by simp
  show "rdist (currentPos (update_2 (Fin v) R s)) (targetPositionsRef s) i
           = (1 - (0.03 + v * 0.08)) * rdist (currentPos s) (targetPositionsRef s) i"
    if i: "i < PARTICLE_COUNT" and m: "pointsRef s \<noteq> None" and g: "handGrip_of s < 0.5"
  proof -
    have p: "update_2 (Fin v) R s = particles (Fin (0.03 + v * 0.08)) (Fin v) R s"
      using m g by (auto simp: update_2_def Let_def)
    show ?thesis unfolding p particles_quiet(3) [OF len fin q i] a by simp
  qed
  have b: "1 - (0.03 + v * 0.08) \<le> 1" using v by simp
  have u: "update_2 (Fin v) R s = s \<or>
           update_2 (Fin v) R s = particles (Fin (0.03 + v * 0.08)) (Fin v) R s"
    by (simp add: update_2_def Let_def split: option.splits)
  show "length (currentPos (update_2 (Fin v) R s)) = 3 * PARTICLE_COUNT"
    using u len by (auto simp: particles_nth(1))
  show "list_all is_finite (currentPos (update_2 (Fin v) R s))"
    using u len fin q by (auto simp: particles_quiet(2))
  show "rdist (currentPos (update_2 (Fin v) R s)) (targetPositionsRef s) i
           \<le> rdist (currentPos s) (targetPositionsRef s) i" if i: "i < PARTICLE_COUNT"
    using u
  proof
    assume "update_2 (Fin v) R s = s"
    then show ?thesis by simp
  next
    assume p: "update_2 (Fin v) R s = particles (Fin (0.03 + v * 0.08)) (Fin v) R s"
    from mult_right_mono [OF b rdist_nonneg [of "currentPos s" "targetPositionsRef s" i]]
    show ?thesis
      unfolding p particles_quiet(3) [OF len fin q i] a by simp
  qed
qed


lemma ticks_1_quiet:
  assumes len: "length (currentPos s) = 3 * PARTICLE_COUNT"
      "length (targetPositionsRef s) = 3 * PARTICLE_COUNT"
    and fin: "list_all is_finite (currentPos s)" "list_all is_finite (targetPositionsRef s)"
    and v: "0 \<le> v" "v \<le> 0.8"
    and i: "i < PARTICLE_COUNT"
  shows "length (currentPos ((update_1 c t (Fin v) R ^^ n) s)) = 3 * PARTICLE_COUNT \<and>
         list_all is_finite (currentPos ((update_1 c t (Fin v) R ^^ n) s)) \<and>
         targetPositionsRef ((update_1 c t (Fin v) R ^^ n) s) = targetPositionsRef s \<and>
         pointsRef ((update_1 c t (Fin v) R ^^ n) s) \<noteq> None = (pointsRef s \<noteq> None) \<and>
         rdist (currentPos ((update_1 c t (Fin v) R ^^ Suc n) s)) (targetPositionsRef s) i
           \<le> rdist (currentPos ((update_1 c t (Fin v) R ^^ n) s)) (targetPositionsRef s) i \<and>
         rdist (currentPos ((update_1 c t (Fin v) R ^^ n) s)) (targetPositionsRef s) i
           \<le> rdist (currentPos s) (targetPositionsRef s) i \<and>
         (pointsRef s \<noteq> None \<longrightarrow>
          rdist (currentPos ((update_1 c t (Fin v) R ^^ n) s)) (targetPositionsRef s) i
           = (1 - (0.02 + v * 0.05)) ^ n * rdist (currentPos s) (targetPositionsRef s) i)"
proof (induction n)
  case 0
  from update_1_quiet(3) [OF len fin v i, where c = c and t = t and R = R] len fin show ?case by simp
next
  case (Suc n)
  let ?s = "(update_1 c t (Fin v) R ^^ n) s"
  from Suc have l: "length (currentPos ?s) = 3 * PARTICLE_COUNT"
    and f: "list_all is_finite (currentPos ?s)"
    and t: "targetPositionsRef ?s = targetPositionsRef s"
    and p: "pointsRef ?s \<noteq> None = (pointsRef s \<noteq> None)"
    and d1: "rdist (currentPos (update_1 c t (Fin v) R ?s)) (targetPositionsRef s) i
           \<le> rdist (currentPos ?s) (targetPositionsRef s) i"
    and d0: "rdist (currentPos ?s) (targetPositionsRef s) i
           \<le> rdist (currentPos s) (targetPositionsRef s) i"
    and e: "pointsRef s \<noteq> None \<longrightarrow>
          rdist (currentPos ?s) (targetPositionsRef s) i
           = (1 - (0.02 + v * 0.05)) ^ n * rdist (currentPos s) (targetPositionsRef s) i"
    by simp_all
  have l2: "length (targetPositionsRef ?s) = 3 * PARTICLE_COUNT" using len t by simp
  have f2: "list_all is_finite (targetPositionsRef ?s)" using fin t by simp
  let ?s' = "update_1 c t (Fin v) R ?s"
  note q = update_1_quiet [OF l l2 f f2 v, where c = c and t = t and R = R]
  have l': "length (currentPos ?s') = 3 * PARTICLE_COUNT" by (rule q(1))
  have f': "list_all is_finite (currentPos ?s')" by (rule q(2))
  have t': "targetPositionsRef ?s' = targetPositionsRef s" using t by (simp add: update_1_frame)
  have l2': "length (targetPositionsRef ?s') = 3 * PARTICLE_COUNT" using len t' by simp
  have f2': "list_all is_finite (targetPositionsRef ?s')" using fin t' by simp
  have p': "pointsRef ?s' \<noteq> None = (pointsRef s \<noteq> None)"
    using p by (cases "pointsRef ?s")
      (auto simp: update_1_def Let_def particles_frame split: prod.splits)
  have d2: "rdist (currentPos (update_1 c t (Fin v) R ?s')) (targetPositionsRef s) i
      \<le> rdist (currentPos ?s') (targetPositionsRef s) i"
    using update_1_quiet(3) [OF l' l2' f' f2' v i, where c = c and t = t and R = R] t' by simp
  have e': "rdist (currentPos ?s') (targetPositionsRef s) i
           = (1 - (0.02 + v * 0.05)) ^ Suc n * rdist (currentPos s) (targetPositionsRef s) i"
    if m: "pointsRef s \<noteq> None"
  proof -
    have "pointsRef ?s \<noteq> None" using p m by simp
    from q(4) [OF i this] e m t show ?thesis by simp
  qed
  from l' f' t' p' d2 d1 d0 e' show ?case by simp
qed

lemma handGrip_of_update_2: "handGrip_of (update_2 v R s) = handGrip_of s"
  by (simp add: handGrip_of_def update_2_frame)

lemma ticks_2_quiet:
  assumes len: "length (currentPos s) = 3 * PARTICLE_COUNT"
      "length (targetPositionsRef s) = 3 * PARTICLE_COUNT"
    and fin: "list_all is_finite (currentPos s)" "list_all is_finite (targetPositionsRef s)"
    and v: "0 \<le> v" "v \<le> 0.8"
    and i: "i < PARTICLE_COUNT"
  shows "length (currentPos ((update_2 (Fin v) R ^^ n) s)) = 3 * PARTICLE_COUNT \<and>
         list_all is_finite (currentPos ((update_2 (Fin v) R ^^ n) s)) \<and>
         targetPositionsRef ((update_2 (Fin v) R ^^ n) s) = targetPositionsRef s \<and>
         pointsRef ((update_2 (Fin v) R ^^ n) s) = pointsRef s \<and>
         handGrip_of ((update_2 (Fin v) R ^^ n) s) = handGrip_of s \<and>
         rdist (currentPos ((update_2 (Fin v) R ^^ Suc n) s)) (targetPositionsRef s) i
           \<le> rdist (currentPos ((update_2 (Fin v) R ^^ n) s)) (targetPositionsRef s) i \<and>
         rdist (currentPos ((update_2 (Fin v) R ^^ n) s)) (targetPositionsRef s) i
           \<le> rdist (currentPos s) (targetPositionsRef s) i \<and>
         (pointsRef s \<noteq> None \<and> handGrip_of s < 0.5 \<longrightarrow>
          rdist (currentPos ((update_2 (Fin v) R ^^ n) s)) (targetPositionsRef s) i
           = (1 - (0.03 + v * 0.08)) ^ n * rdist (currentPos s) (targetPositionsRef s) i)"
proof (induction n)
  case 0
  from update_2_quiet(3) [OF len fin v i, where R = R] len fin show ?case by simp
next
  case (Suc n)
  let ?s = "(update_2 (Fin v) R ^^ n) s"
  from Suc have l: "length (currentPos ?s) = 3 * PARTICLE_COUNT"
    and f: "list_all is_finite (currentPos ?s)"
    and t: "targetPositionsRef ?s = targetPositionsRef s"
    and p: "pointsRef ?s = pointsRef s"
    and g: "handGrip_of ?s = handGrip_of s"
    and d1: "rdist (currentPos (update_2 (Fin v) R ?s)) (targetPositionsRef s) i
           \<le> rdist (currentPos ?s) (targetPositionsRef s) i"
    and d0: "rdist (currentPos ?s) (targetPositionsRef s) i
           \<le> rdist (currentPos s) (targetPositionsRef s) i"
    and e: "pointsRef s \<noteq> None \<and> handGrip_of s < 0.5 \<longrightarrow>
          rdist (currentPos ?s) (targetPositionsRef s) i
           = (1 - (0.03 + v * 0.08)) ^ n * rdist (currentPos s) (targetPositionsRef s) i"
    by simp_all
  have l2: "length (targetPositionsRef ?s) = 3 * PARTICLE_COUNT" using len t by simp
  have f2: "list_all is_finite (targetPositionsRef ?s)" using fin t by simp
  let ?s' = "update_2 (Fin v) R ?s"
  note q = update_2_quiet [OF l l2 f f2 v, where R = R]
  have l': "length (currentPos ?s') = 3 * PARTICLE_COUNT" by (rule q(1))
  have f': "list_all is_finite (currentPos ?s')" by (rule q(2))
  have t': "targetPositionsRef ?s' = targetPositionsRef s" using t by (simp add: update_2_frame)
  have p': "pointsRef ?s' = pointsRef s" using p by (simp add: update_2_frame)
  have g': "handGrip_of ?s' = handGrip_of s" using g by (simp add: handGrip_of_update_2)
  have l2': "length (targetPositionsRef ?s') = 3 * PARTICLE_COUNT" using len t' by simp
  have f2': "list_all is_finite (targetPositionsRef ?s')" using fin t' by simp
  have d2: "rdist (currentPos (update_2 (Fin v) R ?s')) (targetPositionsRef s) i
      \<le> rdist (currentPos ?s') (targetPositionsRef s) i"
    using update_2_quiet(3) [OF l' l2' f' f2' v i, where R = R] t' by simp
  have e': "rdist (currentPos ?s') (targetPositionsRef s) i
           = (1 - (0.03 + v * 0.08)) ^ Suc n * rdist (currentPos s) (targetPositionsRef s) i"
    if m: "pointsRef s \<noteq> None" "handGrip_of s < 0.5"
  proof -
    have "pointsRef ?s \<noteq> None" "handGrip_of ?s < 0.5" using p g m by simp_all
    from q(4) [OF i this] e m t show ?thesis by simp
  qed
  from l' f' t' p' g' d2 d1 d0 e' show ?case by simp
qed


lemma distance_Fin:
  assumes "3 * i + 2 < length cur" "3 * i + 2 < length tgt"
    and "cur ! (3 * i) = Fin c0" "cur ! (3 * i + 1) = Fin c1" "cur ! (3 * i + 2) = Fin c2"
    and "tgt ! (3 * i) = Fin t0" "tgt ! (3 * i + 1) = Fin t1" "tgt ! (3 * i + 2) = Fin t2"
  shows "distance_to_target cur tgt i =
     Fin (sqrt ((t0 - c0)\<^sup>2 + (t1 - c1)\<^sup>2 + (t2 - c2)\<^sup>2))"
proof -
  have nn: "\<not> (a * a + b * b + c * c < 0)" for a b c :: real
    by (simp add: not_less add_nonneg_nonneg)
  have "distance_to_target cur tgt i =
      Math_sqrt ((Fin t0 - Fin c0) * (Fin t0 - Fin c0) + (Fin t1 - Fin c1) * (Fin t1 - Fin c1)
                 + (Fin t2 - Fin c2) * (Fin t2 - Fin c2))"
    unfolding distance_to_target_def Let_def elem_def assms(3-8) [symmetric]
    using assms(1,2) by simp
  also have "\<dots> = Fin (sqrt ((t0 - c0)\<^sup>2 + (t1 - c1)\<^sup>2 + (t2 - c2)\<^sup>2))"
    by (simp add: nn power2_eq_square)
  finally show ?thesis .
qed

lemma at_rest_distance:
  "distance_to_target (currentPos at_rest_1) (replicate (3 * PARTICLE_COUNT) 1) 0 = Fin (sqrt 3)"
  "distance_to_target (currentPos at_rest_2) (replicate (3 * PARTICLE_COUNT) 1) 0 = Fin (sqrt 3)"
proof -
  have three: "3 * 0 + 2 < 3 * PARTICLE_COUNT" by (simp add: PARTICLE_COUNT_def)
  have e: "sqrt ((1 - 0)\<^sup>2 + (1 - 0)\<^sup>2 + (1 - 0)\<^sup>2) = sqrt 3" by simp
  show "distance_to_target (currentPos at_rest_1) (replicate (3 * PARTICLE_COUNT) 1) 0 = Fin (sqrt 3)"
    unfolding e [symmetric] using three by (intro distance_Fin) simp_all
  show "distance_to_target (currentPos at_rest_2) (replicate (3 * PARTICLE_COUNT) 1) 0 = Fin (sqrt 3)"
    unfolding e [symmetric] using three by (intro distance_Fin) simp_all
qed

lemma handGrip_at_rest: "handGrip_of at_rest_2 = Fin 0"
  by (simp add: handGrip_of_def StarMaterial_2_def)

lemma decay_strict:
  fixes f d :: real
  assumes "0 < f" "f < 1" "0 < d"
  shows "f ^ Suc n * d < f ^ n * d"
proof -
  have "0 < f ^ n * d" using assms by simp
  then have "f * (f ^ n * d) < 1 * (f ^ n * d)" using assms(2) by (rule mult_strict_right_mono [rotated])
  then show ?thesis by (simp add: mult.assoc)
qed




lemma loud_tick:
  assumes "j < 3 * PARTICLE_COUNT"
  shows "currentPos (update_1 DEFAULT_VISUAL_CONFIG 0 (volume_of loudest) zeros at_rest_1) ! j
           = Fin (- 0.18)"
proof -
  let ?s1 = "at_rest_1\<lparr>pointsRef :=
      Some (0 + (0.001 * speed DEFAULT_VISUAL_CONFIG + Fin 1 * 0.01), Math_sin (0 * 0.3) * 0.1)\<rparr>"
  have u: "update_1 DEFAULT_VISUAL_CONFIG 0 (volume_of loudest) zeros at_rest_1
      = particles (Fin 0.07) (Fin 1) zeros ?s1"
    by (simp add: update_1_def Let_def)
  have "currentPos (particles (Fin 0.07) (Fin 1) zeros ?s1) ! j =
      pushed (Fin 1) zeros (cursor_at (Fin 1) (drawn ?s1) (j div 3))
        (moved (Fin 0.07) (currentPos ?s1 ! j) (targetPositionsRef ?s1 ! j))"
    by (rule particles_nth(2)) (simp_all add: assms)
  also have "\<dots> = Fin (- 0.18)"
    using assms by (simp add: pushed_def moved_def Math_random_def zeros_def)
  finally show ?thesis unfolding u .
qed


subsection \<open>The grip and the particle update\<close>

lemma useFrame_2_material:
  "materialRef (useFrame_2 c g t a R s) =
     materialRef (uniforms_2 c g t (volume_of a) (treble_of a) (morph_2 c t (volume_of a) R s))"
  by (simp add: useFrame_2_def Let_def update_2_frame)

lemma update_2_suspended:
  assumes "materialRef s = Some u" "0.5 \<le> uHandGrip u"
  shows "update_2 v R s = s"
proof -
  have n: "\<not> uHandGrip u < 0.5" using assms(2) by (rule js_less_eq_not_less)
  have "uHandGrip u \<noteq> NaN" "uHandGrip u \<noteq> Fin 0"
    using assms(2) by (auto simp: less_eq_jsnum_def)
  then have "handGrip_of s = uHandGrip u" using assms(1) by (simp add: handGrip_of_def)
  then show ?thesis using n by (simp add: update_2_def Let_def split: option.splits)
qed

text \<open>
  Claim C6, as amended. In every frame of the second scene after which the smoothed
  grip (the signed value, positive for an implosion) is at least 0.5, the particle
  update is skipped: the frame leaves the current buffer as it was.
\<close>

theorem strong_implosion_suspends_morphing:
  assumes "grip_of (useFrame_2 config gesture time audio R s) = Some g" and "0.5 \<le> g"
  shows "currentPos (useFrame_2 config gesture time audio R s) = currentPos s"
proof -
  let ?s2 = "uniforms_2 config gesture time (volume_of audio) (treble_of audio)
               (morph_2 config time (volume_of audio) R s)"
  from assms(1) obtain u where u: "materialRef ?s2 = Some u" "uHandGrip u = g"
    by (auto simp: grip_of_def useFrame_2_material)
  have "0.5 \<le> uHandGrip u" using u(2) assms(2) by simp
  with u(1) have "update_2 (volume_of audio) R ?s2 = ?s2"
    by (rule update_2_suspended)
  then have "useFrame_2 config gesture time audio R s = ?s2"
    by (simp add: useFrame_2_def Let_def)
  then show ?thesis by (simp add: uniforms_2_frame morph_2_frame)
qed

lemma morph_2_early:
  "morph_2 c 0 v R gripped_2 = gripped_2" "morph_2 c 0 v R spread_2 = spread_2"
  by (simp_all add: morph_2_def gripped_2_def spread_2_def)

lemma grip_after_fist:
  "grip_of (useFrame_2 DEFAULT_VISUAL_CONFIG fist 0 silence zeros gripped_2) = Some (Fin 1)"
  unfolding grip_of_def useFrame_2_material morph_2_early
  by (simp add: uniforms_2_def Let_def
      gripped_2_def gripVal_of_def fist_def lerp_def StarMaterial_2_def no_hand_def)

theorem strong_implosion_witness:
  "grip_of (useFrame_2 DEFAULT_VISUAL_CONFIG fist 0 silence zeros gripped_2) = Some (Fin 1) \<and>
   0.5 \<le> Fin 1 \<and>
   currentPos (useFrame_2 DEFAULT_VISUAL_CONFIG fist 0 silence zeros gripped_2) =
     replicate (3 * PARTICLE_COUNT) 0"
proof -
  have h: "0.5 \<le> Fin 1" by simp
  from strong_implosion_suspends_morphing [OF grip_after_fist h] grip_after_fist h
  show ?thesis by (simp add: gripped_2_def)
qed

lemma grip_after_open_hand:
  "grip_of (useFrame_2 DEFAULT_VISUAL_CONFIG open_hand 0 silence zeros spread_2) = Some (Fin (- 1))"
  unfolding grip_of_def useFrame_2_material morph_2_early
  by (simp add: uniforms_2_def Let_def
      spread_2_def gripVal_of_def open_hand_def lerp_def StarMaterial_2_def no_hand_def)

text \<open>
  Claim C6 as stated fails for a strong explosion: with the smoothed grip at -1 (an
  open left hand at full strength), of magnitude 1 > 0.5, the frame still moves every
  particle towards its target, here coordinate 0 from 0 to 0.03.
\<close>

theorem strong_explosion_does_not_suspend:
  "grip_of (useFrame_2 DEFAULT_VISUAL_CONFIG open_hand 0 silence zeros spread_2) = Some (Fin (- 1)) \<and>
   0.5 < Math_abs (Fin (- 1)) \<and>
   elem (currentPos spread_2) 0 = Fin 0 \<and>
   elem (currentPos (useFrame_2 DEFAULT_VISUAL_CONFIG open_hand 0 silence zeros spread_2)) 0
     = Fin 0.03"
proof -
  let ?u = "uniforms_2 DEFAULT_VISUAL_CONFIG open_hand (Fin 0) (Fin 0) (treble_of silence) spread_2"
  have g: "handGrip_of ?u = Fin (- 1)"
    by (simp add: handGrip_of_def uniforms_2_def Let_def
      spread_2_def gripVal_of_def open_hand_def lerp_def StarMaterial_2_def no_hand_def)
  have p: "pointsRef ?u = Some (0, 0)" by (simp add: uniforms_2_frame spread_2_def)
  have f: "useFrame_2 DEFAULT_VISUAL_CONFIG open_hand 0 silence zeros spread_2
      = particles (Fin 0.03) (Fin 0) zeros ?u"
    unfolding useFrame_2_def Let_def morph_2_early
    by (simp add: update_2_def Let_def g p)
  have c: "currentPos ?u = replicate (3 * PARTICLE_COUNT) 0"
    and t: "targetPositionsRef ?u = replicate (3 * PARTICLE_COUNT) 1"
    by (simp_all add: uniforms_2_frame spread_2_def)
  have z: "0 < 3 * PARTICLE_COUNT" by simp
  have "currentPos (particles (Fin 0.03) (Fin 0) zeros ?u) ! 0 =
      pushed (Fin 0) zeros (cursor_at (Fin 0) (drawn ?u) (0 div 3))
        (moved (Fin 0.03) (currentPos ?u ! 0) (targetPositionsRef ?u ! 0))"
    by (rule particles_nth(2)) (simp_all add: c t)
  also have "\<dots> = Fin 0.03"
    unfolding c t by (simp add: pushed_def moved_def)
  finally have n: "currentPos (particles (Fin 0.03) (Fin 0) zeros ?u) ! 0 = Fin 0.03" .
  have l: "length (currentPos (particles (Fin 0.03) (Fin 0) zeros ?u)) = 3 * PARTICLE_COUNT"
    by (rule particles_nth(1)) (simp_all add: c t)
  show ?thesis
    unfolding f using n l grip_after_open_hand [unfolded f]
    by (simp add: elem_def spread_2_def)
qed

subsection \<open>A new configuration and the cooldown\<close>

lemma setConfig_simps:
  assumes "shape new \<noteq> shape old"
  shows "currentShapeRef (setConfig generate old new R s) = shape new"
    and "lastShapeChangeTime (setConfig generate old new R s) = 0"
    and "targetPositionsRef (setConfig generate old new R s) =
           Float32Array_set (targetPositionsRef s)
             (fst (generate (shape new) PARTICLE_COUNT (chaos new) R (drawn s)))"
  using assms by (simp_all add: setConfig_def useEffect_def split: prod.splits)

lemma first_candidate_1:
  "shape_at (filter (\<lambda>x. x \<noteq> TORUS) allShapes_1)
     (Math_floor (Math_random zeros k * num (length (filter (\<lambda>x. x \<noteq> TORUS) allShapes_1))))
   = SPHERE"
  by (simp add: allShapes_1_def Math_random_def zeros_def)

lemma first_candidate_2:
  "shape_at (filter (\<lambda>x. x \<noteq> TORUS) allShapes_2)
     (Math_floor (Math_random zeros k * num (length (filter (\<lambda>x. x \<noteq> TORUS) allShapes_2))))
   = SPHERE"
  by (simp add: allShapes_2_def Math_random_def zeros_def)

text \<open>
  Claim C7, evaluated. The scene has started with the default configuration (shape
  SPHERE); a configuration with the shape TORUS is assigned while the clock reads
  100 s. The effect regenerates the target for TORUS and stores 0 as the time of the
  last change, the origin of the clock and not its reading. So the frame at the same
  clock time of 100 s, with silent audio, finds more than the forced-switch time gone
  and switches away from TORUS at once (to SPHERE, when the draw is 0).
\<close>

theorem new_config_is_overridden_at_once:
  "currentShapeRef
     (setConfig generate_1 DEFAULT_VISUAL_CONFIG (DEFAULT_VISUAL_CONFIG\<lparr>shape := TORUS\<rparr>) zeros
        (start_1 DEFAULT_VISUAL_CONFIG zeros)) = TORUS \<and>
   lastShapeChangeTime
     (setConfig generate_1 DEFAULT_VISUAL_CONFIG (DEFAULT_VISUAL_CONFIG\<lparr>shape := TORUS\<rparr>) zeros
        (start_1 DEFAULT_VISUAL_CONFIG zeros)) = 0 \<and>
   currentShapeRef
     (useFrame_1 (DEFAULT_VISUAL_CONFIG\<lparr>shape := TORUS\<rparr>) 100 silence zeros
        (setConfig generate_1 DEFAULT_VISUAL_CONFIG (DEFAULT_VISUAL_CONFIG\<lparr>shape := TORUS\<rparr>) zeros
           (start_1 DEFAULT_VISUAL_CONFIG zeros))) = SPHERE \<and>
   currentShapeRef
     (useFrame_2 (DEFAULT_VISUAL_CONFIG\<lparr>shape := TORUS\<rparr>) no_hands 100 silence zeros
        (setConfig generate_2 DEFAULT_VISUAL_CONFIG (DEFAULT_VISUAL_CONFIG\<lparr>shape := TORUS\<rparr>) zeros
           (start_2 DEFAULT_VISUAL_CONFIG zeros))) = SPHERE"
proof -
  let ?new = "DEFAULT_VISUAL_CONFIG\<lparr>shape := TORUS\<rparr>"
  let ?s1 = "setConfig generate_1 DEFAULT_VISUAL_CONFIG ?new zeros (start_1 DEFAULT_VISUAL_CONFIG zeros)"
  let ?s2 = "setConfig generate_2 DEFAULT_VISUAL_CONFIG ?new zeros (start_2 DEFAULT_VISUAL_CONFIG zeros)"
  have d: "shape ?new \<noteq> shape DEFAULT_VISUAL_CONFIG"
    by (simp add: DEFAULT_VISUAL_CONFIG_def)
  have n: "shape ?new = TORUS" by simp
  note c1 = setConfig_simps(1,2) [OF d, of generate_1 zeros "start_1 DEFAULT_VISUAL_CONFIG zeros"]
  note c2 = setConfig_simps(1,2) [OF d, of generate_2 zeros "start_2 DEFAULT_VISUAL_CONFIG zeros"]
  have m1: "morph_1 ?new 100 (volume_of silence) zeros ?s1
      = transition allShapes_1 generate_1 ?new 100 (volume_of silence) zeros ?s1"
    by (rule morph_1_forced) (simp add: c1)
  have m2: "morph_2 ?new 100 (volume_of silence) zeros ?s2
      = transition allShapes_2 generate_2 ?new 100 (volume_of silence) zeros ?s2"
    by (rule morph_2_forced) (simp add: c2)
  have "currentShapeRef (useFrame_1 ?new 100 silence zeros ?s1) = SPHERE"
    unfolding useFrame_1_morph m1 transition_simps c1 n by (rule first_candidate_1)
  moreover have "currentShapeRef (useFrame_2 ?new no_hands 100 silence zeros ?s2) = SPHERE"
    unfolding useFrame_2_morph m2 transition_simps c2 n by (rule first_candidate_2)
  ultimately show ?thesis using c1 n by simp
qed

subsection \<open>A new configuration and the thresholds\<close>

lemma volume_quiet [simp]: "volume_of quiet = Fin (1 / 5)"
  by (simp add: volume_of_def quiet_def)

lemma first_candidate_start:
  "shape_at (filter (\<lambda>x. x \<noteq> SPHERE) allShapes_1)
     (Math_floor (Math_random zeros k * num (length (filter (\<lambda>x. x \<noteq> SPHERE) allShapes_1))))
   = GALAXY_SPIRAL"
  "shape_at (filter (\<lambda>x. x \<noteq> SPHERE) allShapes_2)
     (Math_floor (Math_random zeros k * num (length (filter (\<lambda>x. x \<noteq> SPHERE) allShapes_2))))
   = GALAXY_SPIRAL"
  by (simp_all add: allShapes_1_def allShapes_2_def Math_random_def zeros_def)

lemma first_candidate_helix:
  "shape_at (filter (\<lambda>x. x \<noteq> DNA_HELIX) allShapes_1)
     (Math_floor (Math_random zeros k * num (length (filter (\<lambda>x. x \<noteq> DNA_HELIX) allShapes_1))))
   = SPHERE"
  "shape_at (filter (\<lambda>x. x \<noteq> DNA_HELIX) allShapes_2)
     (Math_floor (Math_random zeros k * num (length (filter (\<lambda>x. x \<noteq> DNA_HELIX) allShapes_2))))
   = SPHERE"
  by (simp_all add: allShapes_1_def allShapes_2_def Math_random_def zeros_def)

lemma switched_simps:
  "currentShapeRef switched_1 = GALAXY_SPIRAL" "lastShapeChangeTime switched_1 = 25"
  "currentShapeRef switched_2 = GALAXY_SPIRAL" "lastShapeChangeTime switched_2 = 25"
proof -
  let ?c = DEFAULT_VISUAL_CONFIG
  have s: "shape ?c = SPHERE" by (simp add: DEFAULT_VISUAL_CONFIG_def)
  have m1: "morph_1 ?c 25 (volume_of silence) zeros (start_1 ?c zeros)
      = transition allShapes_1 generate_1 ?c 25 (volume_of silence) zeros (start_1 ?c zeros)"
    by (rule morph_1_forced) simp
  have m2: "morph_2 ?c 25 (volume_of silence) zeros (start_2 ?c zeros)
      = transition allShapes_2 generate_2 ?c 25 (volume_of silence) zeros (start_2 ?c zeros)"
    by (rule morph_2_forced) simp
  show "currentShapeRef switched_1 = GALAXY_SPIRAL"
    unfolding switched_1_def useFrame_1_morph m1 transition_simps start_1_simps s
    by (rule first_candidate_start)
  show "currentShapeRef switched_2 = GALAXY_SPIRAL"
    unfolding switched_2_def useFrame_2_morph m2 transition_simps start_2_simps s
    by (rule first_candidate_start)
  show "lastShapeChangeTime switched_1 = 25"
    unfolding switched_1_def useFrame_1_morph m1 transition_simps ..
  show "lastShapeChangeTime switched_2 = 25"
    unfolding switched_2_def useFrame_2_morph m2 transition_simps ..
qed

lemma reassigned_simps:
  "currentShapeRef reassigned_1 = DNA_HELIX" "lastShapeChangeTime reassigned_1 = 0"
  "currentShapeRef reassigned_2 = DNA_HELIX" "lastShapeChangeTime reassigned_2 = 0"
proof -
  have d: "shape helix \<noteq> shape DEFAULT_VISUAL_CONFIG"
    by (simp add: helix_def DEFAULT_VISUAL_CONFIG_def)
  have h: "shape helix = DNA_HELIX" by (simp add: helix_def)
  show "currentShapeRef reassigned_1 = DNA_HELIX" "lastShapeChangeTime reassigned_1 = 0"
    "currentShapeRef reassigned_2 = DNA_HELIX" "lastShapeChangeTime reassigned_2 = 0"
    unfolding reassigned_1_def reassigned_2_def setConfig_simps(1,2) [OF d] h by (rule refl)+
qed

text \<open>
  Claim C3, evaluated. The scene has changed shape in the frame at 25 s, which stored
  25 s as the time of the last change; then a configuration with the shape DNA_HELIX
  is assigned, and the effect stores 0 in its place. In the frame at 27 s the volume is
  0.2, below the switch threshold (0.6, resp. 0.5), and 2 s have passed since the last
  transition, far less than the forced-switch time (20 s, resp. 15 s). All the same
  the frame changes the current shape, from DNA_HELIX to SPHERE: it measures the time
  from the stored 0 and finds 27 s gone.
\<close>

theorem shape_changes_below_thresholds:
  "lastShapeChangeTime switched_1 = 25 \<and> lastShapeChangeTime switched_2 = 25 \<and>
   currentShapeRef reassigned_1 = DNA_HELIX \<and> currentShapeRef reassigned_2 = DNA_HELIX \<and>
   volume_of quiet < 0.5 \<and>
   27 - lastShapeChangeTime switched_1 < 15.0 \<and> 27 - lastShapeChangeTime switched_2 < 15.0 \<and>
   currentShapeRef (useFrame_1 helix 27 quiet zeros reassigned_1) = SPHERE \<and>
   currentShapeRef (useFrame_2 helix no_hands 27 quiet zeros reassigned_2) = SPHERE"
proof -
  have m1: "morph_1 helix 27 (volume_of quiet) zeros reassigned_1
      = transition allShapes_1 generate_1 helix 27 (volume_of quiet) zeros reassigned_1"
    by (rule morph_1_forced) (simp add: reassigned_simps)
  have m2: "morph_2 helix 27 (volume_of quiet) zeros reassigned_2
      = transition allShapes_2 generate_2 helix 27 (volume_of quiet) zeros reassigned_2"
    by (rule morph_2_forced) (simp add: reassigned_simps)
  have "currentShapeRef (useFrame_1 helix 27 quiet zeros reassigned_1) = SPHERE"
    unfolding useFrame_1_morph m1 transition_simps reassigned_simps
    by (rule first_candidate_helix)
  moreover have "currentShapeRef (useFrame_2 helix no_hands 27 quiet zeros reassigned_2) = SPHERE"
    unfolding useFrame_2_morph m2 transition_simps reassigned_simps
    by (rule first_candidate_helix)
  ultimately show ?thesis by (simp add: switched_simps reassigned_simps)
qed

section \<open>Properties of the generator\<close>

subsection \<open>No case leaves the domain of its operations\<close>

lemma SPHERE_finite:
  assumes "0 \<le> r2" "r2 < 1"
  shows "vec_finite (case_SPHERE (Fin c) (Fin r1) (Fin r2) (Fin r3) d)"
  using assms
  by (simp add: case_SPHERE_def vec_finite_def setFromSphericalCoords_def Let_def)

lemma GALAXY_SPIRAL_finite:
  assumes "0 \<le> r1" "0 \<le> c"
  shows "vec_finite (case_GALAXY_SPIRAL (Fin c) (Fin t) (Fin r1) (Fin r2) (Fin r3) d)"
proof -
  have "(0::int) \<le> \<lfloor>c * 4\<rfloor>" using assms by simp
  then have "3 + real_of_int \<lfloor>c * 4\<rfloor> \<noteq> 0" by linarith
  then show ?thesis
    using assms by (simp add: case_GALAXY_SPIRAL_def vec_finite_def Let_def)
qed

lemma lorenz_step_finite: "att_finite s \<Longrightarrow> att_finite (lorenz_step s)"
proof -
  assume a: "att_finite s"
  obtain x y z where s: "s = (x, y, z)" by (cases s)
  from a s obtain a b c where "x = Fin a" "y = Fin b" "z = Fin c"
    by (auto dest: is_finite_val)
  then show ?thesis by (simp add: s lorenz_step_def Let_def)
qed

lemma lorenz_steps_finite: "att_finite s \<Longrightarrow> att_finite ((lorenz_step ^^ n) s)"
  by (induction n) (simp_all add: lorenz_step_finite)

lemma LORENZ_ATTRACTOR_1_finite: "vec_finite (case_LORENZ_ATTRACTOR_1 i d)"
proof -
  have "att_finite ((lorenz_step ^^ (100 + i mod 2000)) (0.1, 0, 0))"
    by (rule lorenz_steps_finite) simp
  then obtain a b c where "(lorenz_step ^^ (100 + i mod 2000)) (0.1, 0, 0) = (Fin a, Fin b, Fin c)"
    by (cases "(lorenz_step ^^ (100 + i mod 2000)) (0.1, 0, 0)") (auto dest: is_finite_val)
  then show ?thesis
    by (simp add: case_LORENZ_ATTRACTOR_1_def Let_def vec_finite_def multiplyScalar_def vec3_set_def)
qed

lemma MOBIUS_STRIP_finite: "vec_finite (case_MOBIUS_STRIP (Fin r1) (Fin r2) d)"
  by (simp add: case_MOBIUS_STRIP_def vec_finite_def map_range_def Let_def)

lemma CARDIOID_HEART_finite: "vec_finite (case_CARDIOID_HEART (Fin r1) (Fin r2) d)"
  by (simp add: case_CARDIOID_HEART_def vec_finite_def Let_def)

lemma DNA_HELIX_finite: "vec_finite (case_DNA_HELIX (Fin c) i (Fin t) (Fin r3) d)"
  by (simp add: case_DNA_HELIX_def vec_finite_def map_range_def Let_def)

lemma menger_snap_finite: "is_finite (menger_snap (Fin c) R k (Fin a))"
  by (simp add: menger_snap_def Let_def Math_random_def)

lemma MENGER_SPONGE_APPROX_finite:
  "vec_finite (fst (case_MENGER_SPONGE_APPROX (Fin c) (Fin r1) (Fin r2) (Fin r3) R (d, k)))"
  by (simp add: case_MENGER_SPONGE_APPROX_def vec_finite_def map_range_def Let_def
      menger_snap_finite)

lemma PENROSE_TRIANGLE_APPROX_finite:
  "vec_finite (fst (case_PENROSE_TRIANGLE_APPROX (Fin c) i R (d, k)))"
  by (simp add: case_PENROSE_TRIANGLE_APPROX_def vec_finite_def map_range_def Let_def
      Math_random_def vec3_set_def)

lemma TORUS_finite: "vec_finite (case_TORUS (Fin c) (Fin r1) (Fin r2) d)"
  by (simp add: case_TORUS_def vec_finite_def Let_def)

lemma KLEIN_BOTTLE_finite: "vec_finite (case_KLEIN_BOTTLE (Fin r1) (Fin r2) d)"
  by (simp add: case_KLEIN_BOTTLE_def vec_finite_def Let_def multiplyScalar_def)

lemma voxel_snap_finite: "is_finite (voxel_snap (Fin a))"
  by (simp add: voxel_snap_def Let_def)

lemma VOXEL_GRID_finite:
  "vec_finite (fst (case_VOXEL_GRID (Fin c) (Fin r1) (Fin r2) (Fin r3) R (d, k)))"
proof -
  have "is_finite (voxel_snap (map_range (Fin r) (- 25) 25))" for r
    by (simp add: map_range_def voxel_snap_finite)
  from this [THEN is_finite_val] obtain a1 a2 a3 where
    "voxel_snap (map_range (Fin r1) (- 25) 25) = Fin a1"
    "voxel_snap (map_range (Fin r2) (- 25) 25) = Fin a2"
    "voxel_snap (map_range (Fin r3) (- 25) 25) = Fin a3"
    by blast
  then show ?thesis
    by (simp add: case_VOXEL_GRID_def vec_finite_def Let_def Math_random_def)
qed

lemma CYBER_FLOWER_finite: "vec_finite (case_CYBER_FLOWER (Fin c) i (Fin r1) (Fin r2) d)"
  by (simp add: case_CYBER_FLOWER_def vec_finite_def Let_def multiplyScalar_def
      setFromSphericalCoords_def)

lemma default_finite: "vec_finite (case_default (Fin r1) (Fin r2) (Fin r3) d)"
  by (simp add: case_default_def vec_finite_def map_range_def Let_def)


lemma cols_pos:
  assumes "0 < count"
  shows "1 \<le> \<lfloor>sqrt (real count)\<rfloor>"
proof -
  have "1 \<le> real count" using assms by simp
  then have "1 \<le> sqrt (real count)" by simp
  then show ?thesis by (simp add: le_floor_iff)
qed

lemma LIQUID_WAVE_finite:
  assumes "0 < count"
  shows "vec_finite (fst (case_LIQUID_WAVE count i R (d, k)))"
proof -
  from cols_pos [OF assms] have "real_of_int \<lfloor>sqrt (real count)\<rfloor> \<noteq> 0" by linarith
  then show ?thesis
    by (simp add: case_LIQUID_WAVE_def vec_finite_def map_range_def Let_def
        Math_random_def vec3_set_def)
qed

lemma PULSING_BLACK_HOLE_finite:
  assumes "draws_ok R" "0 \<le> r2"
  shows "vec_finite (fst (case_PULSING_BLACK_HOLE count i (Fin r1) (Fin r2) R (d, k)))"
proof -
  have "0 \<le> R (k + 1)" "R (k + 1) < 1" using assms(1) by (simp_all add: draws_ok_def)
  moreover have "8 + r2 * 25 \<noteq> 0" using assms(2) by (simp add: add_nonneg_eq_0_iff)
  ultimately show ?thesis
    by (simp add: case_PULSING_BLACK_HOLE_def vec_finite_def Let_def
        Math_random_def setFromSphericalCoords_def)
qed

subsection \<open>The attractors of the second generator\<close>

lemma att_finiteE:
  assumes "att_finite a"
  obtains x y z where "a = (Fin x, Fin y, Fin z)"
  using assms by (cases a) (auto dest: is_finite_val)

lemma LORENZ_ATTRACTOR_2_finite:
  assumes "att_finite a"
  shows "vec_finite (fst (case_LORENZ_ATTRACTOR_2 i R (d, a, k)))"
    and "att_finite (fst (snd (case_LORENZ_ATTRACTOR_2 i R (d, a, k))))"
proof -
  from assms obtain x y z where a: "a = (Fin x, Fin y, Fin z)" by (rule att_finiteE)
  show "vec_finite (fst (case_LORENZ_ATTRACTOR_2 i R (d, a, k)))"
    by (simp add: a case_LORENZ_ATTRACTOR_2_def vec_finite_def Let_def Math_random_def
        multiplyScalar_def vec3_set_def)
  show "att_finite (fst (snd (case_LORENZ_ATTRACTOR_2 i R (d, a, k))))"
    by (simp add: a case_LORENZ_ATTRACTOR_2_def Let_def Math_random_def)
qed

lemma AIZAWA_ATTRACTOR_finite:
  assumes "att_finite a"
  shows "vec_finite (fst (case_AIZAWA_ATTRACTOR i R (d, a, k)))"
    and "att_finite (fst (snd (case_AIZAWA_ATTRACTOR i R (d, a, k))))"
proof -
  from assms obtain x y z where a: "a = (Fin x, Fin y, Fin z)" by (rule att_finiteE)
  show "vec_finite (fst (case_AIZAWA_ATTRACTOR i R (d, a, k)))"
    by (simp add: a case_AIZAWA_ATTRACTOR_def vec_finite_def Let_def Math_random_def
        vec3_set_def)
  show "att_finite (fst (snd (case_AIZAWA_ATTRACTOR i R (d, a, k))))"
    by (simp add: a case_AIZAWA_ATTRACTOR_def Let_def Math_random_def)
qed

lemma THOMAS_ATTRACTOR_finite:
  assumes "att_finite a"
  shows "vec_finite (fst (case_THOMAS_ATTRACTOR i R (d, a, k)))"
    and "att_finite (fst (snd (case_THOMAS_ATTRACTOR i R (d, a, k))))"
proof -
  from assms obtain x y z where a: "a = (Fin x, Fin y, Fin z)" by (rule att_finiteE)
  show "vec_finite (fst (case_THOMAS_ATTRACTOR i R (d, a, k)))"
    by (simp add: a case_THOMAS_ATTRACTOR_def vec_finite_def Let_def Math_random_def
        multiplyScalar_def vec3_set_def)
  show "att_finite (fst (snd (case_THOMAS_ATTRACTOR i R (d, a, k))))"
    by (simp add: a case_THOMAS_ATTRACTOR_def Let_def Math_random_def)
qed

lemma CLIFFORD_ATTRACTOR_finite:
  assumes "att_finite a"
  shows "vec_finite (fst (case_CLIFFORD_ATTRACTOR i R (d, a, k)))"
    and "att_finite (fst (snd (case_CLIFFORD_ATTRACTOR i R (d, a, k))))"
proof -
  from assms obtain x y z where a: "a = (Fin x, Fin y, Fin z)" by (rule att_finiteE)
  show "vec_finite (fst (case_CLIFFORD_ATTRACTOR i R (d, a, k)))"
    by (simp add: a case_CLIFFORD_ATTRACTOR_def vec_finite_def Let_def Math_random_def
        multiplyScalar_def vec3_set_def)
  show "att_finite (fst (snd (case_CLIFFORD_ATTRACTOR i R (d, a, k))))"
    by (simp add: a case_CLIFFORD_ATTRACTOR_def Let_def Math_random_def)
qed


subsection \<open>The loop\<close>

lemma loop_1_Suc:
  "loop_1 type count c R k (Suc n) = body_1 type count c R n (loop_1 type count c R k n)"
  by (simp add: loop_1_def)

lemma loop_2_Suc:
  "loop_2 type count c R k (Suc n) = body_2 type count c R n (loop_2 type count c R k n)"
  by (simp add: loop_2_def)

lemma body_1_positions:
  "positions (body_1 type count c R i st) =
     store_point (positions st) (i * 3) (dummy (body_1 type count c R i st))"
  by (simp add: body_1_def Let_def split_beta)

lemma body_2_positions:
  "positions (body_2 type count c R i st) =
     store_point (positions st) (i * 3) (dummy (body_2 type count c R i st))"
  by (simp add: body_2_def Let_def split_beta)

lemma length_store_point [simp]: "length (store_point ps idx d) = length ps"
  by (simp add: store_point_def)

lemma loop_1_length [simp]: "length (positions (loop_1 type count c R k n)) = 3 * count"
  by (induction n) (simp_all add: loop_1_Suc body_1_positions, simp add: loop_1_def init_1_def)

lemma loop_2_length [simp]: "length (positions (loop_2 type count c R k n)) = 3 * count"
  by (induction n) (simp_all add: loop_2_Suc body_2_positions, simp add: loop_2_def init_2_def)

lemma list_all_update: "list_all P xs \<Longrightarrow> P v \<Longrightarrow> list_all P (xs[i := v])"
  unfolding list_all_iff using set_update_subset_insert [of xs i v] by auto

lemma store_point_finite:
  assumes "list_all is_finite ps" "vec_finite d"
  shows "list_all is_finite (store_point ps idx d)"
  using assms by (simp add: store_point_def vec_finite_def list_all_update)

lemma body_1_finite:
  assumes "draws_ok R" "0 \<le> c" "c \<le> 1" "i < count"
  shows "vec_finite (dummy (body_1 type count (Fin c) R i st))"
proof -
  have r: "0 \<le> R j" "R j < 1" for j using assms(1) by (simp_all add: draws_ok_def)
  have n: "count \<noteq> 0" "0 < count" using assms(4) by simp_all
  have t: "num i / num count = Fin (real i / real count)" using n by simp
  show ?thesis
    unfolding body_1_def Let_def Math_random_def t
    by (cases type)
      (simp_all add: split_beta SPHERE_finite GALAXY_SPIRAL_finite LORENZ_ATTRACTOR_1_finite
        MOBIUS_STRIP_finite CARDIOID_HEART_finite DNA_HELIX_finite MENGER_SPONGE_APPROX_finite
        PENROSE_TRIANGLE_APPROX_finite TORUS_finite KLEIN_BOTTLE_finite VOXEL_GRID_finite
        CYBER_FLOWER_finite LIQUID_WAVE_finite PULSING_BLACK_HOLE_finite default_finite
        r n assms(1,2))
qed

lemma body_2_finite:
  assumes "draws_ok R" "0 \<le> c" "c \<le> 1" "i < count" "att_finite (att st)"
  shows "vec_finite (dummy (body_2 type count (Fin c) R i st))"
    and "att_finite (att (body_2 type count (Fin c) R i st))"
proof -
  have r: "0 \<le> R j" "R j < 1" for j using assms(1) by (simp_all add: draws_ok_def)
  have n: "count \<noteq> 0" "0 < count" using assms(4) by simp_all
  have t: "num i / num count = Fin (real i / real count)" using n by simp
  show "vec_finite (dummy (body_2 type count (Fin c) R i st))"
    unfolding body_2_def Let_def Math_random_def t
    by (cases type)
      (simp_all add: split_beta SPHERE_finite GALAXY_SPIRAL_finite LORENZ_ATTRACTOR_2_finite
        MOBIUS_STRIP_finite CARDIOID_HEART_finite DNA_HELIX_finite MENGER_SPONGE_APPROX_finite
        PENROSE_TRIANGLE_APPROX_finite TORUS_finite KLEIN_BOTTLE_finite VOXEL_GRID_finite
        CYBER_FLOWER_finite LIQUID_WAVE_finite PULSING_BLACK_HOLE_finite default_finite
        AIZAWA_ATTRACTOR_finite THOMAS_ATTRACTOR_finite CLIFFORD_ATTRACTOR_finite
        r n assms(1,2,5))
  show "att_finite (att (body_2 type count (Fin c) R i st))"
    unfolding body_2_def Let_def Math_random_def t
    by (cases type)
      (simp_all add: split_beta LORENZ_ATTRACTOR_2_finite
        AIZAWA_ATTRACTOR_finite THOMAS_ATTRACTOR_finite CLIFFORD_ATTRACTOR_finite
        assms(5))
qed

lemma loop_1_finite:
  assumes "draws_ok R" "0 \<le> c" "c \<le> 1" "n \<le> count"
  shows "list_all is_finite (positions (loop_1 type count (Fin c) R k n))"
  using assms(4)
proof (induction n)
  case 0
  show ?case by (simp add: loop_1_def init_1_def)
next
  case (Suc n)
  then have "list_all is_finite (positions (loop_1 type count (Fin c) R k n))" "n < count"
    by simp_all
  then show ?case
    unfolding loop_1_Suc body_1_positions
    by (intro store_point_finite body_1_finite assms(1-3))
qed

lemma loop_2_finite:
  assumes "draws_ok R" "0 \<le> c" "c \<le> 1" "n \<le> count"
  shows "list_all is_finite (positions (loop_2 type count (Fin c) R k n)) \<and>
         att_finite (att (loop_2 type count (Fin c) R k n))"
  using assms(4)
proof (induction n)
  case 0
  show ?case by (simp add: loop_2_def init_2_def)
next
  case (Suc n)
  then have "list_all is_finite (positions (loop_2 type count (Fin c) R k n))"
    and a: "att_finite (att (loop_2 type count (Fin c) R k n))" and n: "n < count"
    by simp_all
  then have "list_all is_finite (positions (loop_2 type count (Fin c) R k (Suc n)))"
    unfolding loop_2_Suc body_2_positions
    by (intro store_point_finite body_2_finite(1) assms(1-3))
  moreover have "att_finite (att (loop_2 type count (Fin c) R k (Suc n)))"
    unfolding loop_2_Suc by (intro body_2_finite(2) assms(1-3) n a)
  ultimately show ?case by simp
qed

text \<open>
  In the arithmetic of this model a sum or a product of finite numbers is finite, so
  what the following lemma establishes is that no case of either implementation
  divides by zero, calls \<open>Math.acos\<close> outside \<open>[-1, 1]\<close> or takes the square root of a
  negative number, for any kind, count, chaos level in \<open>[0, 1]\<close> and draws in
  \<open>[0, 1)\<close>. It does not bound the iterates of the attractor cases, and so does not
  decide whether they stay within the range of the floating-point numbers.
\<close>

lemma no_case_leaves_its_domain:
  assumes "draws_ok R" and "0 \<le> c" and "c \<le> 1"
  shows "list_all is_finite (getShapePositions_1 type count (Fin c) R k)"
    and "list_all is_finite (getShapePositions_2 type count (Fin c) R k)"
  using loop_1_finite [OF assms order_refl] loop_2_finite [OF assms order_refl]
  by (simp_all add: getShapePositions_1_def getShapePositions_2_def)

subsection \<open>What the loop leaves in the buffer\<close>

lemma store_point_nth:
  assumes "idx + 2 < length ps"
  shows "store_point ps idx d ! idx = vx d"
    and "store_point ps idx d ! (idx + 1) = vy d"
    and "store_point ps idx d ! (idx + 2) = vz d"
    and "q < idx \<Longrightarrow> store_point ps idx d ! q = ps ! q"
  using assms by (simp_all add: store_point_def)

lemma loop_1_keeps:
  assumes "q < 3 * m" "m \<le> n"
  shows "positions (loop_1 type count c R k n) ! q = positions (loop_1 type count c R k m) ! q"
  using assms(2)
proof (induction n)
  case 0
  then show ?case by simp
next
  case (Suc n)
  show ?case
  proof (cases "m = Suc n")
    case True
    then show ?thesis by simp
  next
    case False
    with Suc have m: "m \<le> n" and
      IH: "positions (loop_1 type count c R k n) ! q = positions (loop_1 type count c R k m) ! q"
      by simp_all
    have "q < n * 3" using assms(1) m by simp
    then show ?thesis
      unfolding loop_1_Suc body_1_positions by (simp add: store_point_def IH)
  qed
qed

lemma loop_2_keeps:
  assumes "q < 3 * m" "m \<le> n"
  shows "positions (loop_2 type count c R k n) ! q = positions (loop_2 type count c R k m) ! q"
  using assms(2)
proof (induction n)
  case 0
  then show ?case by simp
next
  case (Suc n)
  show ?case
  proof (cases "m = Suc n")
    case True
    then show ?thesis by simp
  next
    case False
    with Suc have m: "m \<le> n" and
      IH: "positions (loop_2 type count c R k n) ! q = positions (loop_2 type count c R k m) ! q"
      by simp_all
    have "q < n * 3" using assms(1) m by simp
    then show ?thesis
      unfolding loop_2_Suc body_2_positions by (simp add: store_point_def IH)
  qed
qed

lemma coord_store_point:
  assumes "i * 3 + 2 < length ps" "j < 3"
  shows "store_point ps (i * 3) d ! (3 * i + j) = coord d j"
proof -
  consider "j = 0" | "j = 1" | "j = 2" using assms(2) by linarith
  then show ?thesis
    using store_point_nth(1-3) [OF assms(1), of d]
    by cases (simp_all add: coord_def mult.commute)
qed

lemma loop_1_nth:
  assumes "i < count" "j < 3"
  shows "positions (loop_1 type count c R k count) ! (3 * i + j) =
           coord (dummy (body_1 type count c R i (loop_1 type count c R k i))) j"
proof -
  have "positions (loop_1 type count c R k count) ! (3 * i + j) =
      positions (loop_1 type count c R k (Suc i)) ! (3 * i + j)"
    using assms by (intro loop_1_keeps) simp_all
  also have "\<dots> = coord (dummy (body_1 type count c R i (loop_1 type count c R k i))) j"
    unfolding loop_1_Suc body_1_positions
    using assms by (intro coord_store_point) simp_all
  finally show ?thesis .
qed

lemma loop_2_nth:
  assumes "i < count" "j < 3"
  shows "positions (loop_2 type count c R k count) ! (3 * i + j) =
           coord (dummy (body_2 type count c R i (loop_2 type count c R k i))) j"
proof -
  have "positions (loop_2 type count c R k count) ! (3 * i + j) =
      positions (loop_2 type count c R k (Suc i)) ! (3 * i + j)"
    using assms by (intro loop_2_keeps) simp_all
  also have "\<dots> = coord (dummy (body_2 type count c R i (loop_2 type count c R k i))) j"
    unfolding loop_2_Suc body_2_positions
    using assms by (intro coord_store_point) simp_all
  finally show ?thesis .
qed

text \<open>A buffer is the list of its coordinates, particle by particle.\<close>

lemma buffer_eqI:
  assumes "length ps = 3 * count"
    and "\<And>i j. i < count \<Longrightarrow> j < 3 \<Longrightarrow> ps ! (3 * i + j) = f (3 * i + j)"
  shows "ps = map f [0..<3 * count]"
proof (rule nth_equalityI)
  show "length ps = length (map f [0..<3 * count])" using assms(1) by simp
next
  fix q assume "q < length ps"
  then have q: "q < 3 * count" using assms(1) by simp
  then have "q div 3 < count" "q mod 3 < 3" by simp_all
  from assms(2) [OF this] have "ps ! q = f q" by simp
  then show "ps ! q = map f [0..<3 * count] ! q" using q by simp
qed


subsection \<open>An unrecognized kind\<close>

lemma body_1_default:
  "dummy (body_1 (UNRECOGNIZED name) count c R i st) =
     case_default (Math_random R (cursor st)) (Math_random R (cursor st + 1))
       (Math_random R (cursor st + 2)) (dummy st)"
  "cursor (body_1 (UNRECOGNIZED name) count c R i st) = cursor st + 3"
  by (simp_all add: body_1_def Let_def)

lemma body_2_default:
  "dummy (body_2 (UNRECOGNIZED name) count c R i st) =
     case_default (Math_random R (cursor st)) (Math_random R (cursor st + 1))
       (Math_random R (cursor st + 2)) (dummy st)"
  "cursor (body_2 (UNRECOGNIZED name) count c R i st) = cursor st + 3"
  by (simp_all add: body_2_def Let_def)

lemma loop_1_default_cursor: "cursor (loop_1 (UNRECOGNIZED name) count c R k n) = k + 3 * n"
  by (induction n) (simp_all add: loop_1_Suc body_1_default, simp add: loop_1_def init_1_def)

lemma loop_2_default_cursor: "cursor (loop_2 (UNRECOGNIZED name) count c R k n) = k + 3 * n"
  by (induction n) (simp_all add: loop_2_Suc body_2_default, simp add: loop_2_def init_2_def)

lemma coord_default:
  assumes "j < 3"
  shows "coord (case_default (Math_random R k) (Math_random R (k + 1)) (Math_random R (k + 2)) d) j
           = Fin (- 15 + R (k + j) * 30)"
proof -
  consider "j = 0" | "j = 1" | "j = 2" using assms by linarith
  then show ?thesis
    by cases (simp_all add: coord_def case_default_def map_range_def Math_random_def Let_def)
qed

lemma default_1:
  "getShapePositions_1 (UNRECOGNIZED name) count c R k =
     map (\<lambda>q. Fin (- 15 + R (k + q) * 30)) [0..<3 * count]"
  unfolding getShapePositions_1_def
proof (rule buffer_eqI)
  show "length (positions (loop_1 (UNRECOGNIZED name) count c R k count)) = 3 * count" by simp
next
  fix i j :: nat assume "i < count" "j < 3"
  then have "positions (loop_1 (UNRECOGNIZED name) count c R k count) ! (3 * i + j) =
      coord (dummy (body_1 (UNRECOGNIZED name) count c R i
                     (loop_1 (UNRECOGNIZED name) count c R k i))) j"
    by (rule loop_1_nth)
  also have "\<dots> = Fin (- 15 + R (k + 3 * i + j) * 30)"
    unfolding body_1_default loop_1_default_cursor using \<open>j < 3\<close> by (rule coord_default)
  finally show "positions (loop_1 (UNRECOGNIZED name) count c R k count) ! (3 * i + j) =
      Fin (- 15 + R (k + (3 * i + j)) * 30)"
    by (simp only: add.assoc)
qed

lemma default_2:
  "getShapePositions_2 (UNRECOGNIZED name) count c R k =
     map (\<lambda>q. Fin (- 15 + R (k + q) * 30)) [0..<3 * count]"
  unfolding getShapePositions_2_def
proof (rule buffer_eqI)
  show "length (positions (loop_2 (UNRECOGNIZED name) count c R k count)) = 3 * count" by simp
next
  fix i j :: nat assume "i < count" "j < 3"
  then have "positions (loop_2 (UNRECOGNIZED name) count c R k count) ! (3 * i + j) =
      coord (dummy (body_2 (UNRECOGNIZED name) count c R i
                     (loop_2 (UNRECOGNIZED name) count c R k i))) j"
    by (rule loop_2_nth)
  also have "\<dots> = Fin (- 15 + R (k + 3 * i + j) * 30)"
    unfolding body_2_default loop_2_default_cursor using \<open>j < 3\<close> by (rule coord_default)
  finally show "positions (loop_2 (UNRECOGNIZED name) count c R k count) ! (3 * i + j) =
      Fin (- 15 + R (k + (3 * i + j)) * 30)"
    by (simp only: add.assoc)
qed

lemma cube_range:
  assumes "draws_ok R"
  shows "list_all (\<lambda>x. - 15 \<le> x \<and> x < 15) (map (\<lambda>q. Fin (- 15 + R (k + q) * 30)) [0..<n])"
proof -
  have "0 \<le> R j" "R j < 1" for j using assms by (simp_all add: draws_ok_def)
  then show ?thesis by (simp add: list_all_length)
qed

text \<open>
  Claim C9. For a kind outside the enum, whatever the count and the chaos level, both
  implementations return the buffer whose element \<open>q\<close> is \<open>-15 + 30 * r\<close> for the
  \<open>q\<close>-th draw \<open>r\<close> after the call: \<open>3 * count\<close> coordinates, each the image of its own
  uniform draw, in \<open>[-15, 15)\<close>. The functions are total: nothing is raised.
\<close>

theorem unknown_kind_fills_cube:
  "getShapePositions_1 (UNRECOGNIZED name) count chaosLevel R k =
     map (\<lambda>q. Fin (- 15 + R (k + q) * 30)) [0..<3 * count] \<and>
   getShapePositions_2 (UNRECOGNIZED name) count chaosLevel R k =
     map (\<lambda>q. Fin (- 15 + R (k + q) * 30)) [0..<3 * count] \<and>
   length (getShapePositions_1 (UNRECOGNIZED name) count chaosLevel R k) = 3 * count \<and>
   length (getShapePositions_2 (UNRECOGNIZED name) count chaosLevel R k) = 3 * count \<and>
   (draws_ok R \<longrightarrow>
      list_all (\<lambda>x. - 15 \<le> x \<and> x < 15)
        (getShapePositions_1 (UNRECOGNIZED name) count chaosLevel R k) \<and>
      list_all (\<lambda>x. - 15 \<le> x \<and> x < 15)
        (getShapePositions_2 (UNRECOGNIZED name) count chaosLevel R k))"
  using cube_range [of R k "3 * count"] by (simp add: default_1 default_2)

theorem unknown_kind_witness:
  "draws_ok zeros \<and>
   getShapePositions_1 (UNRECOGNIZED ''TETRAHEDRON'') 2 0.5 zeros 0 = replicate 6 (Fin (- 15)) \<and>
   getShapePositions_2 (UNRECOGNIZED ''TETRAHEDRON'') 2 0.5 zeros 0 = replicate 6 (Fin (- 15)) \<and>
   list_all (\<lambda>x. - 15 \<le> x \<and> x < 15)
     (getShapePositions_1 (UNRECOGNIZED ''TETRAHEDRON'') 2 0.5 zeros 0)"
proof -
  have d: "draws_ok zeros" by (simp add: draws_ok_def zeros_def)
  have e: "map (\<lambda>q. Fin (- 15 + zeros (0 + q) * 30)) [0..<3 * 2] = replicate 6 (Fin (- 15))"
    by (simp add: zeros_def upt_rec numeral_eq_Suc)
  note t = unknown_kind_fills_cube [of "''TETRAHEDRON''" 2 "0.5" zeros 0]
  from t have "getShapePositions_1 (UNRECOGNIZED ''TETRAHEDRON'') 2 0.5 zeros 0
      = map (\<lambda>q. Fin (- 15 + zeros (0 + q) * 30)) [0..<3 * 2]"
    by (rule conjunct1)
  then have r1: "getShapePositions_1 (UNRECOGNIZED ''TETRAHEDRON'') 2 0.5 zeros 0
      = replicate 6 (Fin (- 15))"
    using e by (rule trans)
  from t have "getShapePositions_2 (UNRECOGNIZED ''TETRAHEDRON'') 2 0.5 zeros 0
      = map (\<lambda>q. Fin (- 15 + zeros (0 + q) * 30)) [0..<3 * 2]"
    by blast
  then have r2: "getShapePositions_2 (UNRECOGNIZED ''TETRAHEDRON'') 2 0.5 zeros 0
      = replicate 6 (Fin (- 15))"
    using e by (rule trans)
  from t d have "list_all (\<lambda>x. - 15 \<le> x \<and> x < 15)
     (getShapePositions_1 (UNRECOGNIZED ''TETRAHEDRON'') 2 0.5 zeros 0)"
    by blast
  with d r1 r2 show ?thesis by blast
qed


subsection \<open>The Lorenz case of the first generator\<close>

lemma body_1_lorenz:
  "dummy (body_1 LORENZ_ATTRACTOR count c R i st) = case_LORENZ_ATTRACTOR_1 i (dummy st)"
  by (simp add: body_1_def Let_def)

lemma lorenz_1_point:
  "case_LORENZ_ATTRACTOR_1 i d =
     (case (lorenz_step ^^ (100 + i mod 2000)) (0.1, 0, 0) of
        (x, y, z) \<Rightarrow> \<lparr>vx = x * 0.8, vy = y * 0.8, vz = (z - 25) * 0.8\<rparr>)"
  by (cases d)
    (simp add: case_LORENZ_ATTRACTOR_1_def Let_def multiplyScalar_def vec3_set_def
      split: prod.splits)

lemma lorenz_1_no_dummy: "case_LORENZ_ATTRACTOR_1 i d = case_LORENZ_ATTRACTOR_1 i origin"
  by (simp only: lorenz_1_point)

lemma lorenz_1_period: "case_LORENZ_ATTRACTOR_1 (i + 2000) d = case_LORENZ_ATTRACTOR_1 i d"
  by (simp only: lorenz_1_point mod_add_self2)

lemma lorenz_1:
  "getShapePositions_1 LORENZ_ATTRACTOR count c R k =
     map (\<lambda>q. coord (case_LORENZ_ATTRACTOR_1 (q div 3) origin) (q mod 3)) [0..<3 * count]"
  unfolding getShapePositions_1_def
proof (rule buffer_eqI)
  show "length (positions (loop_1 LORENZ_ATTRACTOR count c R k count)) = 3 * count" by simp
next
  fix i j :: nat assume a: "i < count" "j < 3"
  then have "positions (loop_1 LORENZ_ATTRACTOR count c R k count) ! (3 * i + j) =
      coord (dummy (body_1 LORENZ_ATTRACTOR count c R i
                     (loop_1 LORENZ_ATTRACTOR count c R k i))) j"
    by (rule loop_1_nth)
  also have "\<dots> = coord (case_LORENZ_ATTRACTOR_1 i origin) j"
    unfolding body_1_lorenz by (simp only: lorenz_1_point)
  finally show "positions (loop_1 LORENZ_ATTRACTOR count c R k count) ! (3 * i + j) =
      coord (case_LORENZ_ATTRACTOR_1 ((3 * i + j) div 3) origin) ((3 * i + j) mod 3)"
    using a(2) by simp
qed

lemma lorenz_1_nth:
  assumes "i < count" "j < 3"
  shows "elem (getShapePositions_1 LORENZ_ATTRACTOR count c R k) (3 * i + j) =
           coord (case_LORENZ_ATTRACTOR_1 i origin) j"
  using assms by (simp add: lorenz_1 elem_def)

text \<open>
  Claim C10. In the first implementation the buffer of the Lorenz kind is a function
  of the count alone: particle \<open>i\<close> is the state after \<open>100 + i mod 2000\<close> Euler steps
  from \<open>(0.1, 0, 0)\<close>, shifted by -25 in z and scaled by 0.8. So the chaos level, the
  draws and the cursor do not matter, and particles 2000 apart coincide.
\<close>

theorem lorenz_1_depends_on_index_only:
  "getShapePositions_1 LORENZ_ATTRACTOR count chaosLevel R k =
     map (\<lambda>q. coord (case_LORENZ_ATTRACTOR_1 (q div 3) origin) (q mod 3)) [0..<3 * count] \<and>
   case_LORENZ_ATTRACTOR_1 i d =
     (case (lorenz_step ^^ (100 + i mod 2000)) (0.1, 0, 0) of
        (x, y, z) \<Rightarrow> \<lparr>vx = x * 0.8, vy = y * 0.8, vz = (z - 25) * 0.8\<rparr>) \<and>
   getShapePositions_1 LORENZ_ATTRACTOR count chaosLevel R k =
     getShapePositions_1 LORENZ_ATTRACTOR count chaosLevel' R' k' \<and>
   (i + 2000 < count \<longrightarrow>
      elem (getShapePositions_1 LORENZ_ATTRACTOR count chaosLevel R k) (3 * (i + 2000))
        = elem (getShapePositions_1 LORENZ_ATTRACTOR count chaosLevel R k) (3 * i) \<and>
      elem (getShapePositions_1 LORENZ_ATTRACTOR count chaosLevel R k) (3 * (i + 2000) + 1)
        = elem (getShapePositions_1 LORENZ_ATTRACTOR count chaosLevel R k) (3 * i + 1) \<and>
      elem (getShapePositions_1 LORENZ_ATTRACTOR count chaosLevel R k) (3 * (i + 2000) + 2)
        = elem (getShapePositions_1 LORENZ_ATTRACTOR count chaosLevel R k) (3 * i + 2))"
proof (intro conjI impI)
  show "getShapePositions_1 LORENZ_ATTRACTOR count chaosLevel R k =
     map (\<lambda>q. coord (case_LORENZ_ATTRACTOR_1 (q div 3) origin) (q mod 3)) [0..<3 * count]"
    by (rule lorenz_1)
  show "case_LORENZ_ATTRACTOR_1 i d =
     (case (lorenz_step ^^ (100 + i mod 2000)) (0.1, 0, 0) of
        (x, y, z) \<Rightarrow> \<lparr>vx = x * 0.8, vy = y * 0.8, vz = (z - 25) * 0.8\<rparr>)"
    by (rule lorenz_1_point)
  show "getShapePositions_1 LORENZ_ATTRACTOR count chaosLevel R k =
     getShapePositions_1 LORENZ_ATTRACTOR count chaosLevel' R' k'"
    by (simp only: lorenz_1)
next
  assume h: "i + 2000 < count"
  then have i: "i < count" by simp
  have p: "coord (case_LORENZ_ATTRACTOR_1 (i + 2000) origin) j =
      coord (case_LORENZ_ATTRACTOR_1 i origin) j" for j
    by (simp only: lorenz_1_period)
  show "elem (getShapePositions_1 LORENZ_ATTRACTOR count chaosLevel R k) (3 * (i + 2000))
        = elem (getShapePositions_1 LORENZ_ATTRACTOR count chaosLevel R k) (3 * i)"
    using lorenz_1_nth [OF h, of 0 chaosLevel R k] lorenz_1_nth [OF i, of 0 chaosLevel R k] p [of 0]
    by simp
  show "elem (getShapePositions_1 LORENZ_ATTRACTOR count chaosLevel R k) (3 * (i + 2000) + 1)
        = elem (getShapePositions_1 LORENZ_ATTRACTOR count chaosLevel R k) (3 * i + 1)"
    using lorenz_1_nth [OF h, of 1 chaosLevel R k] lorenz_1_nth [OF i, of 1 chaosLevel R k] p [of 1]
    by simp
  show "elem (getShapePositions_1 LORENZ_ATTRACTOR count chaosLevel R k) (3 * (i + 2000) + 2)
        = elem (getShapePositions_1 LORENZ_ATTRACTOR count chaosLevel R k) (3 * i + 2)"
    using lorenz_1_nth [OF h, of 2 chaosLevel R k] lorenz_1_nth [OF i, of 2 chaosLevel R k] p [of 2]
    by simp
qed

theorem lorenz_1_witness:
  "(7::nat) + 2000 < 15000 \<and>
   elem (getShapePositions_1 LORENZ_ATTRACTOR 15000 0.5 zeros 0) (3 * (7 + 2000))
     = elem (getShapePositions_1 LORENZ_ATTRACTOR 15000 0.5 zeros 0) (3 * 7) \<and>
   getShapePositions_1 LORENZ_ATTRACTOR 15000 0.5 zeros 0
     = getShapePositions_1 LORENZ_ATTRACTOR 15000 1 (\<lambda>k. 0.25) 3"
proof -
  have h: "(7::nat) + 2000 < 15000" by simp
  note t = lorenz_1_depends_on_index_only
    [of 15000 "0.5" zeros 0 7 origin 1 "\<lambda>k. 0.25" 3]
  from t h have "elem (getShapePositions_1 LORENZ_ATTRACTOR 15000 0.5 zeros 0) (3 * (7 + 2000))
     = elem (getShapePositions_1 LORENZ_ATTRACTOR 15000 0.5 zeros 0) (3 * 7)"
    by blast
  moreover from t have "getShapePositions_1 LORENZ_ATTRACTOR 15000 0.5 zeros 0
     = getShapePositions_1 LORENZ_ATTRACTOR 15000 1 (\<lambda>k. 0.25) 3"
    by blast
  ultimately show ?thesis using h by blast
qed

subsection \<open>The generated buffer fits the target\<close>

text \<open>
  The buffer generated for the scene has as many elements as the target array, so
  \<open>set\<close> overwrites the whole target and never runs past its end.
\<close>

lemma getShapePositions_length:
  "length (getShapePositions_1 type count c R k) = 3 * count"
  "length (getShapePositions_2 type count c R k) = 3 * count"
  by (simp_all add: getShapePositions_1_def getShapePositions_2_def)

lemma Float32Array_set_whole:
  assumes "length target = 3 * PARTICLE_COUNT"
  shows "Float32Array_set target (getShapePositions_1 type PARTICLE_COUNT c R k)
           = getShapePositions_1 type PARTICLE_COUNT c R k"
    and "Float32Array_set target (getShapePositions_2 type PARTICLE_COUNT c R k)
           = getShapePositions_2 type PARTICLE_COUNT c R k"
  using assms by (simp_all add: Float32Array_set_def getShapePositions_length)

end
